theory Spec2Isabelle
  imports Main "HOL-Library.Word"
begin

section \<open>Object model (object.h)\<close>

text \<open>
  Every runtime value is an \<open>Object\<close> reached through a \<open>std::shared_ptr\<close>. A pointer
  is an address of the object store or \<open>None\<close> for \<open>nullptr\<close>, which is the empty list.
  A \<open>Scope\<close> is reached through a handle of the scope store; a \<open>std::weak_ptr<Scope>\<close>
  is a handle or \<open>None\<close> (default constructed).
\<close>

type_synonym addr = nat
type_synonym ptr = "addr option"
type_synonym scope_handle = nat
type_synonym weak_scope = "scope_handle option"

text \<open>
  The five classes derived from \<open>Object\<close>. \<open>Lambda\<close> carries its four members in the
  order of the class: \<open>arg_names_\<close>, \<open>scope_\<close>, \<open>expressions_\<close>, \<open>local_scopes_\<close>.
  \<open>int64_t\<close> is a 64 bit word read with \<open>sint\<close>; \<open>size_t\<close> is a 64 bit word read
  with \<open>unat\<close>.
\<close>

datatype Object =
    Number "64 word"
  | Boolean bool
  | Symbol string
  | Cell ptr ptr
  | Lambda "string list" weak_scope "ptr list" "scope_handle list"

text \<open>
  \<open>class Scope\<close> (scheme.h), its members written without the trailing underscore.
  The field \<open>destroyed\<close> records that the last \<open>shared_ptr\<close> to the frame is gone,
  which is what \<open>weak_ptr::expired\<close> observes.
\<close>

record Scope =
  parent :: weak_scope
  variables :: "string \<rightharpoonup> ptr"
  refs :: "64 word"
  destroyed :: bool

text \<open>
  The store: the objects and the frames allocated so far. \<open>new\<close> takes the next free
  address. Nothing is deallocated in the store; the destruction of a frame is visible
  through \<open>destroyed\<close> only.

  The development follows the program up to the destructors: no function below destroys
  an object, so \<open>Lambda::~Lambda\<close> never runs (a closure keeps its count on its defining
  frame and the frames it has allocated), and no function below sets \<open>destroyed\<close>. An
  evaluation here is a run of the program in which no closure has been destroyed so far.
  The theorems that quantify over a store hold for every store, whatever frames it marks
  as destroyed.
\<close>

record state =
  objects :: "addr \<Rightarrow> Object"
  next_object :: addr
  scopes :: "scope_handle \<Rightarrow> Scope"
  next_scope :: scope_handle

datatype error =
    SyntaxError string
  | RuntimeError string
  | NameError string
  | Terminate
  | Undefined

text \<open>
  A call either does not return (\<open>None\<close>: the recursion or a loop over a cyclic
  structure never ends), throws (\<open>Inl\<close>), or returns (\<open>Inr\<close>). \<open>Terminate\<close> is
  \<open>std::terminate\<close>. \<open>Undefined\<close> is an operation whose behaviour C++ leaves undefined and
  that kills the process on the usual hardware: the \<open>int64_t\<close> division whose quotient is
  not an \<open>int64_t\<close>. Neither is an exception that a handler could catch.
\<close>

type_synonym 'a result = "(error + 'a) option"

abbreviation Throw :: "error \<Rightarrow> 'a result" where
  "Throw e \<equiv> Some (Inl e)"

abbreviation Return :: "'a \<Rightarrow> 'a result" where
  "Return x \<equiv> Some (Inr x)"

definition and_then :: "'a result \<Rightarrow> ('a \<Rightarrow> 'b result) \<Rightarrow> 'b result" where
  "and_then m f = (case m of None \<Rightarrow> None | Some (Inl e) \<Rightarrow> Some (Inl e) | Some (Inr x) \<Rightarrow> f x)"

definition with_string :: "string option \<Rightarrow> (string \<Rightarrow> 'a result) \<Rightarrow> 'a result" where
  "with_string m f = (case m of None \<Rightarrow> None | Some str \<Rightarrow> f str)"

definition new_object :: "Object \<Rightarrow> state \<Rightarrow> ptr \<times> state" where
  "new_object ob s =
     (Some (next_object s),
      s\<lparr>objects := (objects s)(next_object s := ob), next_object := Suc (next_object s)\<rparr>)"

text \<open>
  \<open>GetNumberConstant\<close> and \<open>GetBooleanConstant\<close> hand out shared instances for the
  numbers -1000..1000 and the two booleans. No operation on a Number or a Boolean reads
  its address (\<open>IsEqualTo\<close> compares the values), so each call is a fresh object here.
\<close>

definition GetNumberConstant :: "64 word \<Rightarrow> state \<Rightarrow> ptr \<times> state" where
  "GetNumberConstant v s = new_object (Number v) s"

definition GetBooleanConstant :: "bool \<Rightarrow> state \<Rightarrow> ptr \<times> state" where
  "GetBooleanConstant b s = new_object (Boolean b) s"

text \<open>\<open>dynamic_cast<T*>(p.get())\<close>: null for \<open>nullptr\<close> and for an object of another class.\<close>

definition as_Number :: "state \<Rightarrow> ptr \<Rightarrow> 64 word option" where
  "as_Number s p = (case p of None \<Rightarrow> None
     | Some a \<Rightarrow> (case objects s a of Number v \<Rightarrow> Some v | _ \<Rightarrow> None))"

definition as_Symbol :: "state \<Rightarrow> ptr \<Rightarrow> string option" where
  "as_Symbol s p = (case p of None \<Rightarrow> None
     | Some a \<Rightarrow> (case objects s a of Symbol name \<Rightarrow> Some name | _ \<Rightarrow> None))"

definition as_Boolean :: "state \<Rightarrow> ptr \<Rightarrow> bool option" where
  "as_Boolean s p = (case p of None \<Rightarrow> None
     | Some a \<Rightarrow> (case objects s a of Boolean b \<Rightarrow> Some b | _ \<Rightarrow> None))"

definition as_Cell :: "state \<Rightarrow> ptr \<Rightarrow> (ptr \<times> ptr) option" where
  "as_Cell s p = (case p of None \<Rightarrow> None
     | Some a \<Rightarrow> (case objects s a of Cell f sec \<Rightarrow> Some (f, sec) | _ \<Rightarrow> None))"

section \<open>Rendering (parser.cpp)\<close>

text \<open>\<open>std::to_string(int64_t)\<close>: decimal digits, with a minus sign when negative.\<close>

definition digit_char :: "nat \<Rightarrow> char" where
  "digit_char d = ''0123456789'' ! d"

function dec :: "nat \<Rightarrow> string" where
  "dec n = (if n < 10 then [digit_char n] else dec (n div 10) @ [digit_char (n mod 10)])"
  by pat_completeness auto
termination
  by (relation "measure id") auto

declare dec.simps [simp del]

definition to_string :: "64 word \<Rightarrow> string" where
  "to_string v = (if sint v < 0 then CHR ''-'' # dec (nat (- sint v)) else dec (nat (sint v)))"

text \<open>
  The \<open>while\<close> loop of \<open>ListToString\<close>. \<open>ts\<close> is \<open>::ToString\<close>; \<open>k\<close> bounds the number of
  iterations, and the loop does not return when a cyclic list uses them up.
\<close>

primrec ListToString_loop ::
  "(ptr \<Rightarrow> string option) \<Rightarrow> state \<Rightarrow> nat \<Rightarrow> ptr \<Rightarrow> bool \<Rightarrow> string \<Rightarrow> string option" where
  "ListToString_loop ts s 0 object first result = None"
| "ListToString_loop ts s (Suc k) object first result =
     (case object of
        None \<Rightarrow> Some (result @ '')'')
      | Some a \<Rightarrow>
          (case objects s a of
             Cell f sec \<Rightarrow>
               (case ts f of
                  None \<Rightarrow> None
                | Some str \<Rightarrow>
                    ListToString_loop ts s k sec False
                      ((if first then result else result @ '' '') @ str))
           | _ \<Rightarrow>
               (case ts object of
                  None \<Rightarrow> None
                | Some str \<Rightarrow> Some (result @ '' . '' @ str @ '')''))))"

definition ListToString :: "(ptr \<Rightarrow> string option) \<Rightarrow> state \<Rightarrow> nat \<Rightarrow> ptr \<Rightarrow> string option" where
  "ListToString ts s k object = ListToString_loop ts s k object True ''(''"

text \<open>
  \<open>Lambda::ToString\<close>. After the names, each followed by a space, \<open>result.back() = ')'\<close>
  overwrites the last character of the string built so far.
\<close>

fun append_rendered :: "(ptr \<Rightarrow> string option) \<Rightarrow> ptr list \<Rightarrow> string \<Rightarrow> string option" where
  "append_rendered ts [] result = Some result"
| "append_rendered ts (e # es) result =
     (case ts e of
        None \<Rightarrow> None
      | Some str \<Rightarrow> append_rendered ts es (result @ '' '' @ str))"

definition Lambda_ToString :: "(ptr \<Rightarrow> string option) \<Rightarrow> string list \<Rightarrow> ptr list \<Rightarrow> string option" where
  "Lambda_ToString ts arg_names expressions =
     (let result = ''(lambda ('' @ concat (map (\<lambda>name. name @ '' '') arg_names);
          result = butlast result @ '')''
      in map_option (\<lambda>r. r @ '')'') (append_rendered ts expressions result))"

text \<open>
  \<open>::ToString\<close> with the virtual \<open>ToString\<close> of each class. The first argument bounds the
  depth of the recursion and the length of each list walked.
\<close>

primrec ToString :: "nat \<Rightarrow> state \<Rightarrow> ptr \<Rightarrow> string option" where
  "ToString 0 s obj = None"
| "ToString (Suc n) s obj =
     (case obj of
        None \<Rightarrow> Some ''()''
      | Some a \<Rightarrow>
          (case objects s a of
             Number v \<Rightarrow> Some (to_string v)
           | Boolean b \<Rightarrow> Some (if b then ''#t'' else ''#f'')
           | Symbol name \<Rightarrow> Some name
           | Cell f sec \<Rightarrow> ListToString (ToString n s) s n obj
           | Lambda arg_names scope expressions local_scopes \<Rightarrow>
               Lambda_ToString (ToString n s) arg_names expressions))"

section \<open>Equality, ordering and arithmetic (parser.cpp)\<close>

text \<open>
  \<open>Equal\<close> with the virtual \<open>IsEqualTo\<close> of the left operand. \<open>Cell::IsEqualTo\<close> calls
  \<open>Equal\<close> on the two cars and, when they are equal, on the two cdrs. \<open>None\<close> is a
  recursion that never returns.
\<close>

partial_function (option) Equal :: "state \<Rightarrow> ptr \<Rightarrow> ptr \<Rightarrow> bool option" where
  "Equal s lhs rhs =
     (case lhs of
        None \<Rightarrow> Some (rhs = None)
      | Some a \<Rightarrow>
          (case rhs of
             None \<Rightarrow> Some False
           | Some b \<Rightarrow>
               (case objects s a of
                  Number v \<Rightarrow> Some (case objects s b of Number w \<Rightarrow> w = v | _ \<Rightarrow> False)
                | Boolean v \<Rightarrow> Some (case objects s b of Boolean w \<Rightarrow> v = w | _ \<Rightarrow> False)
                | Symbol v \<Rightarrow> Some (case objects s b of Symbol w \<Rightarrow> w = v | _ \<Rightarrow> False)
                | Cell f sec \<Rightarrow>
                    (case objects s b of
                       Cell f' sec' \<Rightarrow>
                         Option.bind (Equal s f f')
                           (\<lambda>r. if r then Equal s sec sec' else Some False)
                     | _ \<Rightarrow> Some False)
                | Lambda arg_names scope expressions local_scopes \<Rightarrow> Some (a = b))))"

declare Equal.simps [code]

definition FailCompare :: "nat \<Rightarrow> state \<Rightarrow> ptr \<Rightarrow> ptr \<Rightarrow> 'a result" where
  "FailCompare n s lhs rhs =
     with_string (ToString n s lhs) (\<lambda>l.
     with_string (ToString n s rhs) (\<lambda>r.
       Throw (NameError (''Cannot compare: '' @ l @ '' and '' @ r))))"

text \<open>\<open>Less\<close> with the virtual \<open>IsLessThan\<close>: only \<open>Number::IsLessThan\<close> can return.\<close>

definition Less :: "nat \<Rightarrow> state \<Rightarrow> ptr \<Rightarrow> ptr \<Rightarrow> bool result" where
  "Less n s lhs rhs =
     (case lhs of
        None \<Rightarrow> FailCompare n s lhs rhs
      | Some a \<Rightarrow>
          (case rhs of
             None \<Rightarrow> FailCompare n s lhs rhs
           | Some b \<Rightarrow>
               (case objects s a of
                  Number v \<Rightarrow>
                    (case objects s b of
                       Number w \<Rightarrow> Return (sint v < sint w)
                     | _ \<Rightarrow> FailCompare n s lhs rhs)
                | _ \<Rightarrow> FailCompare n s lhs rhs)))"

definition lift_bool :: "bool option \<Rightarrow> bool result" where
  "lift_bool m = (case m of None \<Rightarrow> None | Some b \<Rightarrow> Return b)"

definition LessOrEqual :: "nat \<Rightarrow> state \<Rightarrow> ptr \<Rightarrow> ptr \<Rightarrow> bool result" where
  "LessOrEqual n s lhs rhs =
     and_then (Less n s lhs rhs) (\<lambda>lt. if lt then Return True else lift_bool (Equal s lhs rhs))"

definition Greater :: "nat \<Rightarrow> state \<Rightarrow> ptr \<Rightarrow> ptr \<Rightarrow> bool result" where
  "Greater n s lhs rhs = Less n s rhs lhs"

definition GreaterOrEqual :: "nat \<Rightarrow> state \<Rightarrow> ptr \<Rightarrow> ptr \<Rightarrow> bool result" where
  "GreaterOrEqual n s lhs rhs = LessOrEqual n s rhs lhs"

text \<open>
  The four arithmetic functions share their shape: both operands must be Numbers,
  otherwise a RuntimeError names the operation and the two operands. \<open>+\<close>, \<open>-\<close> and \<open>*\<close>
  on \<open>int64_t\<close> wrap around. \<open>/\<close> truncates towards zero; \<open>Divide\<close> guards the divisor
  zero only, and the one other division that has no quotient in \<open>int64_t\<close>, of the least
  \<open>int64_t\<close> by \<open>-1\<close>, overflows in the division itself.
\<close>

definition fail_arith :: "string \<Rightarrow> nat \<Rightarrow> state \<Rightarrow> ptr \<Rightarrow> ptr \<Rightarrow> 'a result" where
  "fail_arith what n s lhs rhs =
     with_string (ToString n s lhs) (\<lambda>l.
     with_string (ToString n s rhs) (\<lambda>r.
       Throw (RuntimeError (what @ l @ '' and '' @ r))))"

definition Add :: "nat \<Rightarrow> ptr \<Rightarrow> ptr \<Rightarrow> state \<Rightarrow> (ptr \<times> state) result" where
  "Add n lhs rhs s =
     (case as_Number s lhs of
        None \<Rightarrow> fail_arith ''Cannot add: '' n s lhs rhs
      | Some l \<Rightarrow>
          (case as_Number s rhs of
             None \<Rightarrow> fail_arith ''Cannot add: '' n s lhs rhs
           | Some r \<Rightarrow> Return (GetNumberConstant (l + r) s)))"

definition Subtract :: "nat \<Rightarrow> ptr \<Rightarrow> ptr \<Rightarrow> state \<Rightarrow> (ptr \<times> state) result" where
  "Subtract n lhs rhs s =
     (case as_Number s lhs of
        None \<Rightarrow> fail_arith ''Cannot subtract: '' n s lhs rhs
      | Some l \<Rightarrow>
          (case as_Number s rhs of
             None \<Rightarrow> fail_arith ''Cannot subtract: '' n s lhs rhs
           | Some r \<Rightarrow> Return (GetNumberConstant (l - r) s)))"

definition Multiply :: "nat \<Rightarrow> ptr \<Rightarrow> ptr \<Rightarrow> state \<Rightarrow> (ptr \<times> state) result" where
  "Multiply n lhs rhs s =
     (case as_Number s lhs of
        None \<Rightarrow> fail_arith ''Cannot multiply: '' n s lhs rhs
      | Some l \<Rightarrow>
          (case as_Number s rhs of
             None \<Rightarrow> fail_arith ''Cannot multiply: '' n s lhs rhs
           | Some r \<Rightarrow> Return (GetNumberConstant (l * r) s)))"

definition truncated_div :: "64 word \<Rightarrow> 64 word \<Rightarrow> 64 word option" where
  "truncated_div l r =
     (if sint l = - (2 ^ 63) \<and> sint r = - 1 then None
      else Some (word_of_int (sgn (sint l) * sgn (sint r) * (\<bar>sint l\<bar> div \<bar>sint r\<bar>))))"

definition Divide :: "nat \<Rightarrow> ptr \<Rightarrow> ptr \<Rightarrow> state \<Rightarrow> (ptr \<times> state) result" where
  "Divide n lhs rhs s =
     (case as_Number s lhs of
        None \<Rightarrow> fail_arith ''Cannot divide: '' n s lhs rhs
      | Some l \<Rightarrow>
          (case as_Number s rhs of
             None \<Rightarrow> fail_arith ''Cannot divide: '' n s lhs rhs
           | Some r \<Rightarrow>
               if r = 0 then fail_arith ''Cannot divide: '' n s lhs rhs
               else
                 (case truncated_div l r of
                    None \<Rightarrow> Throw Undefined
                  | Some q \<Rightarrow> Return (GetNumberConstant q s))))"

definition AsBoolean :: "state \<Rightarrow> ptr \<Rightarrow> bool" where
  "AsBoolean s object = (case as_Boolean s object of Some b \<Rightarrow> b | None \<Rightarrow> True)"

definition Not :: "ptr \<Rightarrow> state \<Rightarrow> ptr \<times> state" where
  "Not object s = GetBooleanConstant (\<not> AsBoolean s object) s"

section \<open>Scopes (scheme.cpp)\<close>

definition new_Scope :: "weak_scope \<Rightarrow> state \<Rightarrow> scope_handle \<times> state" where
  "new_Scope p s =
     (next_scope s,
      s\<lparr>scopes := (scopes s)(next_scope s :=
           \<lparr>parent = p, variables = Map.empty, refs = 0, destroyed = False\<rparr>),
        next_scope := Suc (next_scope s)\<rparr>)"

definition update_scope :: "scope_handle \<Rightarrow> (Scope \<Rightarrow> Scope) \<Rightarrow> state \<Rightarrow> state" where
  "update_scope h f s = s\<lparr>scopes := (scopes s)(h := f (scopes s h))\<rparr>"

definition AddRef :: "scope_handle \<Rightarrow> state \<Rightarrow> state" where
  "AddRef h s = update_scope h (\<lambda>sc. sc\<lparr>refs := refs sc + 1\<rparr>) s"

definition DelRef :: "scope_handle \<Rightarrow> state \<Rightarrow> state" where
  "DelRef h s = update_scope h (\<lambda>sc. sc\<lparr>refs := refs sc - 1\<rparr>) s"

definition GetRefs :: "state \<Rightarrow> scope_handle \<Rightarrow> 64 word" where
  "GetRefs s h = refs (scopes s h)"

definition expired :: "state \<Rightarrow> weak_scope \<Rightarrow> bool" where
  "expired s w = (case w of None \<Rightarrow> True | Some h \<Rightarrow> destroyed (scopes s h))"

text \<open>
  \<open>FindVariable\<close> returns a pointer to the slot of the variable, or \<open>nullptr\<close>. A slot is
  a frame together with the name, so the result is the handle of the frame that holds
  the name. Frames are numbered in the order of their construction and a parent is
  constructed before its child, so the walk goes to smaller handles; a parent link that
  does not is treated as expired.
\<close>

function FindVariable :: "state \<Rightarrow> scope_handle \<Rightarrow> string \<Rightarrow> scope_handle option" where
  "FindVariable s h name =
     (if variables (scopes s h) name \<noteq> None then Some h
      else if \<not> expired s (parent (scopes s h)) then
        (case parent (scopes s h) of
           None \<Rightarrow> None
         | Some p \<Rightarrow> if p < h then FindVariable s p name else None)
      else None)"
  by pat_completeness auto
termination
  by (relation "measure (\<lambda>(s, h, name). h)") auto

declare FindVariable.simps [simp del]

definition slot_value :: "state \<Rightarrow> scope_handle \<Rightarrow> string \<Rightarrow> ptr" where
  "slot_value s h name = (case variables (scopes s h) name of Some v \<Rightarrow> v | None \<Rightarrow> None)"

definition assign_slot :: "scope_handle \<Rightarrow> string \<Rightarrow> ptr \<Rightarrow> state \<Rightarrow> state" where
  "assign_slot h name v s = update_scope h (\<lambda>sc. sc\<lparr>variables := (variables sc)(name \<mapsto> v)\<rparr>) s"

definition GetVariable :: "scope_handle \<Rightarrow> string \<Rightarrow> state \<Rightarrow> ptr result" where
  "GetVariable h name s =
     (case FindVariable s h name of
        Some f \<Rightarrow> Return (slot_value s f name)
      | None \<Rightarrow> Throw (NameError (''No such variable: '' @ name)))"

text \<open>\<open>std::map::insert\<close> adds the pair when the key is absent and does nothing otherwise.\<close>

definition SetLocalVariable :: "scope_handle \<Rightarrow> string \<Rightarrow> ptr \<Rightarrow> state \<Rightarrow> state" where
  "SetLocalVariable h name v s =
     update_scope h
       (\<lambda>sc. if variables sc name = None then sc\<lparr>variables := (variables sc)(name \<mapsto> v)\<rparr> else sc) s"

definition SetVariable :: "scope_handle \<Rightarrow> string \<Rightarrow> ptr \<Rightarrow> state \<Rightarrow> state" where
  "SetVariable h name v s =
     (case FindVariable s h name of
        Some f \<Rightarrow> assign_slot f name v s
      | None \<Rightarrow> SetLocalVariable h name v s)"

section \<open>Cells and closures (parser.cpp)\<close>

definition SetFirst :: "addr \<Rightarrow> ptr \<Rightarrow> state \<Rightarrow> state" where
  "SetFirst a v s =
     s\<lparr>objects := (objects s)(a := (case objects s a of Cell f sec \<Rightarrow> Cell v sec | ob \<Rightarrow> ob))\<rparr>"

definition SetSecond :: "addr \<Rightarrow> ptr \<Rightarrow> state \<Rightarrow> state" where
  "SetSecond a v s =
     s\<lparr>objects := (objects s)(a := (case objects s a of Cell f sec \<Rightarrow> Cell f v | ob \<Rightarrow> ob))\<rparr>"

text \<open>The constructor \<open>Lambda::Lambda\<close>: the bookkeeping vector starts empty.\<close>

definition new_Lambda :: "string list \<Rightarrow> weak_scope \<Rightarrow> ptr list \<Rightarrow> state \<Rightarrow> ptr \<times> state" where
  "new_Lambda arg_names scope expressions s =
     (let (p, s1) = new_object (Lambda arg_names scope expressions []) s
      in (p, if \<not> expired s1 scope then (case scope of Some h \<Rightarrow> AddRef h s1 | None \<Rightarrow> s1) else s1))"

section \<open>Helpers of the interpreter (scheme.cpp)\<close>

type_synonym evaluator = "ptr \<Rightarrow> state \<Rightarrow> (ptr \<times> state) result"

primrec UnfoldList :: "nat \<Rightarrow> state \<Rightarrow> ptr \<Rightarrow> ptr list result" where
  "UnfoldList 0 s object = None"
| "UnfoldList (Suc n) s object =
     (case object of
        None \<Rightarrow> Return []
      | Some a \<Rightarrow>
          (case objects s a of
             Cell f sec \<Rightarrow> and_then (UnfoldList n s sec) (\<lambda>rest. Return (f # rest))
           | _ \<Rightarrow>
               with_string (ToString n s object) (\<lambda>str.
                 Throw (RuntimeError (''Expected list, but got: '' @ str)))))"

definition FailEvaluation :: "nat \<Rightarrow> state \<Rightarrow> ptr list \<Rightarrow> 'a result" where
  "FailEvaluation n s args =
     with_string (append_rendered (ToString n s) args ''Failed to evaluate: ('') (\<lambda>msg.
       Throw (RuntimeError (msg @ '')'')))"

definition SymbolToName :: "nat \<Rightarrow> state \<Rightarrow> ptr \<Rightarrow> string result" where
  "SymbolToName n s object =
     (case as_Symbol s object of
        None \<Rightarrow>
          with_string (ToString n s object) (\<lambda>str.
            Throw (RuntimeError (''Expected symbol, but got: '' @ str)))
      | Some name \<Rightarrow> Return name)"

fun SymbolsToNames :: "nat \<Rightarrow> state \<Rightarrow> ptr list \<Rightarrow> string list result" where
  "SymbolsToNames n s [] = Return []"
| "SymbolsToNames n s (x # xs) =
     and_then (SymbolToName n s x) (\<lambda>name.
     and_then (SymbolsToNames n s xs) (\<lambda>names. Return (name # names)))"

text \<open>
  \<open>try { ... } catch (...) { throw e; }\<close>: every exception becomes \<open>e\<close>;
  \<open>std::terminate\<close> and undefined behaviour are not exceptions.
\<close>

definition catch_all :: "'a result \<Rightarrow> error \<Rightarrow> 'a result" where
  "catch_all m e =
     (case m of
        Some (Inl x) \<Rightarrow> (if x = Terminate \<or> x = Undefined then Throw x else Throw e)
      | _ \<Rightarrow> m)"

text \<open>The loop \<open>for (i = 1; i < n; ++i) args[i] = Eval(args[i])\<close>, on the tail of \<open>args\<close>.\<close>

fun EvalEach :: "evaluator \<Rightarrow> ptr list \<Rightarrow> state \<Rightarrow> (ptr list \<times> state) result" where
  "EvalEach ev [] s = Return ([], s)"
| "EvalEach ev (a # rest) s =
     and_then (ev a s) (\<lambda>(v, s1).
     and_then (EvalEach ev rest s1) (\<lambda>(vs, s2). Return (v # vs, s2)))"

text \<open>
  The same loop with the check of the comparison commands after each evaluation.
  \<open>done\<close> is the part of \<open>args\<close> already overwritten, \<open>rest\<close> the part still to evaluate.
\<close>

fun EvalNumbers :: "evaluator \<Rightarrow> nat \<Rightarrow> ptr list \<Rightarrow> ptr list \<Rightarrow> state \<Rightarrow> (ptr list \<times> state) result" where
  "EvalNumbers ev n done [] s = Return (done, s)"
| "EvalNumbers ev n done (a # rest) s =
     and_then (ev a s) (\<lambda>(v, s1).
       if as_Number s1 v = None then FailEvaluation n s1 (done @ v # rest)
       else EvalNumbers ev n (done @ [v]) rest s1)"

text \<open>\<open>for (i = 2; i < n; ++i) if (!cmp(args[i - 1], args[i])) return false;\<close>\<close>

fun Chain :: "(ptr \<Rightarrow> ptr \<Rightarrow> bool result) \<Rightarrow> ptr list \<Rightarrow> bool result" where
  "Chain cmp (a # b # rest) =
     and_then (cmp a b) (\<lambda>r. if r then Chain cmp (b # rest) else Return False)"
| "Chain cmp [a] = Return True"
| "Chain cmp [] = Return True"

text \<open>\<open>for (i = 2; i < n; ++i) if (!Equal(args[1], args[i])) return false;\<close>\<close>

fun AllEqual :: "state \<Rightarrow> ptr \<Rightarrow> ptr list \<Rightarrow> bool result" where
  "AllEqual s a [] = Return True"
| "AllEqual s a (b # rest) =
     and_then (lift_bool (Equal s a b)) (\<lambda>r. if r then AllEqual s a rest else Return False)"

text \<open>\<open>for (i = ...; i < n; ++i) result = op(result, args[i]);\<close>\<close>

fun FoldArith ::
  "(ptr \<Rightarrow> ptr \<Rightarrow> state \<Rightarrow> (ptr \<times> state) result) \<Rightarrow> ptr \<Rightarrow> ptr list \<Rightarrow> state \<Rightarrow> (ptr \<times> state) result" where
  "FoldArith op acc [] s = Return (acc, s)"
| "FoldArith op acc (x # xs) s = and_then (op acc x s) (\<lambda>(r, s1). FoldArith op r xs s1)"

text \<open>The loops of \<open>and\<close> and \<open>or\<close>: \<open>Inl\<close> is the early \<open>return args[i]\<close>.\<close>

fun short_circuit ::
  "(state \<Rightarrow> ptr \<Rightarrow> bool) \<Rightarrow> evaluator \<Rightarrow> ptr list \<Rightarrow> ptr list \<Rightarrow> state \<Rightarrow> ((ptr + ptr list) \<times> state) result" where
  "short_circuit stop ev done [] s = Return (Inr done, s)"
| "short_circuit stop ev done (a # rest) s =
     and_then (ev a s) (\<lambda>(v, s1).
       if stop s1 v then Return (Inl v, s1) else short_circuit stop ev (done @ [v]) rest s1)"

text \<open>The selection loops of \<open>min\<close> and \<open>max\<close>.\<close>

fun select_loop :: "(ptr \<Rightarrow> ptr \<Rightarrow> bool result) \<Rightarrow> ptr \<Rightarrow> ptr list \<Rightarrow> ptr result" where
  "select_loop better result [] = Return result"
| "select_loop better result (x # xs) =
     and_then (better x result) (\<lambda>b. select_loop better (if b then x else result) xs)"

text \<open>The \<open>while\<close> loop of \<open>list?\<close>.\<close>

primrec IsList :: "nat \<Rightarrow> state \<Rightarrow> ptr \<Rightarrow> bool option" where
  "IsList 0 s object = None"
| "IsList (Suc k) s object =
     (case object of
        None \<Rightarrow> Some True
      | Some a \<Rightarrow> (case objects s a of Cell f sec \<Rightarrow> IsList k s sec | _ \<Rightarrow> Some False))"

text \<open>The loop of \<open>list\<close>, from the last argument to the first.\<close>

fun MakeList :: "ptr list \<Rightarrow> state \<Rightarrow> ptr \<times> state" where
  "MakeList [] s = (None, s)"
| "MakeList (v # vs) s = (let (r, s1) = MakeList vs s in new_object (Cell v r) s1)"

text \<open>The loop of \<open>list-tail\<close>: \<open>None\<close> when it meets something that is not a Cell.\<close>

fun drop_cells :: "state \<Rightarrow> nat \<Rightarrow> ptr \<Rightarrow> ptr option" where
  "drop_cells s 0 object = Some object"
| "drop_cells s (Suc k) object =
     (case as_Cell s object of None \<Rightarrow> None | Some (f, sec) \<Rightarrow> drop_cells s k sec)"

section \<open>The commands (Interpreter::InitCommands)\<close>

text \<open>
  A command receives the unfolded form \<open>args\<close>, with the name of the command at index 0.
  \<open>ev\<close> is \<open>Eval\<close> of the interpreter that owns the command and \<open>sc\<close> its \<open>scope_\<close>;
  \<open>n\<close> bounds the rendering of error messages and the walks along lists.
\<close>

type_synonym Command = "evaluator \<Rightarrow> nat \<Rightarrow> scope_handle \<Rightarrow> ptr list \<Rightarrow> state \<Rightarrow> (ptr \<times> state) result"

definition EvalArgs :: "evaluator \<Rightarrow> ptr list \<Rightarrow> state \<Rightarrow> (ptr list \<times> state) result" where
  "EvalArgs ev args s =
     and_then (EvalEach ev (tl args) s) (\<lambda>(vals, s1). Return (take 1 args @ vals, s1))"

definition cmd_quote :: Command where
  "cmd_quote ev n sc args s =
     (if length args \<noteq> 2 then FailEvaluation n s args else Return (args ! 1, s))"

definition CheckTypeCommand :: "(state \<Rightarrow> ptr \<Rightarrow> bool) \<Rightarrow> Command" where
  "CheckTypeCommand is_T ev n sc args s =
     (if length args \<noteq> 2 then FailEvaluation n s args
      else and_then (ev (args ! 1) s) (\<lambda>(v, s1). Return (GetBooleanConstant (is_T s1 v) s1)))"

definition cmd_equal :: Command where
  "cmd_equal ev n sc args s =
     and_then (EvalNumbers ev n (take 1 args) (tl args) s) (\<lambda>(args, s1).
     and_then (AllEqual s1 (args ! 1) (drop 2 args)) (\<lambda>b.
       Return (GetBooleanConstant b s1)))"

text \<open>
  The commands \<open><\<close>, \<open>>\<close>, \<open><=\<close> and \<open>>=\<close> are four copies of one body that differ in
  the comparison called in the second loop.
\<close>

definition compare_command :: "(nat \<Rightarrow> state \<Rightarrow> ptr \<Rightarrow> ptr \<Rightarrow> bool result) \<Rightarrow> Command" where
  "compare_command cmp ev n sc args s =
     and_then (EvalNumbers ev n (take 1 args) (tl args) s) (\<lambda>(args, s1).
     and_then (Chain (cmp n s1) (tl args)) (\<lambda>b.
       Return (GetBooleanConstant b s1)))"

definition cmd_less :: Command where
  "cmd_less = compare_command Less"

definition cmd_greater :: Command where
  "cmd_greater = compare_command Greater"

definition cmd_less_equal :: Command where
  "cmd_less_equal = compare_command LessOrEqual"

definition cmd_greater_equal :: Command where
  "cmd_greater_equal = compare_command GreaterOrEqual"

definition cmd_add :: Command where
  "cmd_add ev n sc args s =
     and_then (EvalArgs ev args s) (\<lambda>(args, s1).
       case GetNumberConstant 0 s1 of (result, s2) \<Rightarrow> FoldArith (Add n) result (tl args) s2)"

definition cmd_subtract :: Command where
  "cmd_subtract ev n sc args s =
     and_then (EvalArgs ev args s) (\<lambda>(args, s1).
       if length args \<le> 1 then FailEvaluation n s1 args
       else FoldArith (Subtract n) (args ! 1) (drop 2 args) s1)"

definition cmd_multiply :: Command where
  "cmd_multiply ev n sc args s =
     and_then (EvalArgs ev args s) (\<lambda>(args, s1).
       case GetNumberConstant 1 s1 of (result, s2) \<Rightarrow> FoldArith (Multiply n) result (tl args) s2)"

definition cmd_divide :: Command where
  "cmd_divide ev n sc args s =
     and_then (EvalArgs ev args s) (\<lambda>(args, s1).
       if length args \<le> 1 then FailEvaluation n s1 args
       else FoldArith (Divide n) (args ! 1) (drop 2 args) s1)"

definition cmd_not :: Command where
  "cmd_not ev n sc args s =
     and_then (EvalArgs ev args s) (\<lambda>(args, s1).
       if length args \<noteq> 2 then FailEvaluation n s1 args else Return (Not (args ! 1) s1))"

definition cmd_and :: Command where
  "cmd_and ev n sc args s =
     and_then (short_circuit (\<lambda>s v. \<not> AsBoolean s v) ev (take 1 args) (tl args) s) (\<lambda>(r, s1).
       case r of
         Inl v \<Rightarrow> Return (v, s1)
       | Inr args \<Rightarrow>
           if length args > 1 then Return (last args, s1)
           else Return (GetBooleanConstant True s1))"

definition cmd_or :: Command where
  "cmd_or ev n sc args s =
     and_then (short_circuit AsBoolean ev (take 1 args) (tl args) s) (\<lambda>(r, s1).
       case r of
         Inl v \<Rightarrow> Return (v, s1)
       | Inr args \<Rightarrow>
           if length args > 1 then Return (last args, s1)
           else Return (GetBooleanConstant False s1))"

text \<open>\<open>min\<close> and \<open>max\<close> differ in the comparison of the selection loop.\<close>

definition select_command :: "(nat \<Rightarrow> state \<Rightarrow> ptr \<Rightarrow> ptr \<Rightarrow> bool result) \<Rightarrow> Command" where
  "select_command better ev n sc args s =
     and_then (EvalArgs ev args s) (\<lambda>(args, s1).
       if length args \<le> 1 then FailEvaluation n s1 args
       else if \<not> list_all (\<lambda>x. as_Number s1 x \<noteq> None) (tl args) then FailEvaluation n s1 args
       else and_then (select_loop (better n s1) (args ! 1) (drop 2 args)) (\<lambda>r. Return (r, s1)))"

definition cmd_min :: Command where
  "cmd_min = select_command Less"

definition cmd_max :: Command where
  "cmd_max = select_command Greater"

definition cmd_abs :: Command where
  "cmd_abs ev n sc args s =
     and_then (EvalArgs ev args s) (\<lambda>(args, s1).
       if length args \<noteq> 2 then FailEvaluation n s1 args
       else (case as_Number s1 (args ! 1) of
               None \<Rightarrow> FailEvaluation n s1 args
             | Some v \<Rightarrow>
                 if 0 \<le> sint v then Return (args ! 1, s1)
                 else Return (GetNumberConstant (- v) s1)))"

definition cmd_null :: Command where
  "cmd_null ev n sc args s =
     and_then (EvalArgs ev args s) (\<lambda>(args, s1).
       if length args \<noteq> 2 then FailEvaluation n s1 args
       else Return (GetBooleanConstant (args ! 1 = None) s1))"

definition cmd_is_list :: Command where
  "cmd_is_list ev n sc args s =
     and_then (EvalArgs ev args s) (\<lambda>(args, s1).
       if length args \<noteq> 2 then FailEvaluation n s1 args
       else (case IsList n s1 (args ! 1) of
               None \<Rightarrow> None
             | Some b \<Rightarrow> Return (GetBooleanConstant b s1)))"

definition cmd_cons :: Command where
  "cmd_cons ev n sc args s =
     and_then (EvalArgs ev args s) (\<lambda>(args, s1).
       if length args \<noteq> 3 then FailEvaluation n s1 args
       else Return (new_object (Cell (args ! 1) (args ! 2)) s1))"

definition cmd_car :: Command where
  "cmd_car ev n sc args s =
     and_then (EvalArgs ev args s) (\<lambda>(args, s1).
       if length args \<noteq> 2 then FailEvaluation n s1 args
       else (case as_Cell s1 (args ! 1) of
               None \<Rightarrow> FailEvaluation n s1 args
             | Some (f, sec) \<Rightarrow> Return (f, s1)))"

definition cmd_cdr :: Command where
  "cmd_cdr ev n sc args s =
     and_then (EvalArgs ev args s) (\<lambda>(args, s1).
       if length args \<noteq> 2 then FailEvaluation n s1 args
       else (case as_Cell s1 (args ! 1) of
               None \<Rightarrow> FailEvaluation n s1 args
             | Some (f, sec) \<Rightarrow> Return (sec, s1)))"

definition cmd_list :: Command where
  "cmd_list ev n sc args s =
     and_then (EvalArgs ev args s) (\<lambda>(args, s1). Return (MakeList (tl args) s1))"

text \<open>\<open>size_t index = number->GetValue()\<close> reads the 64 bits as unsigned.\<close>

definition cmd_list_ref :: Command where
  "cmd_list_ref ev n sc args s =
     and_then (EvalArgs ev args s) (\<lambda>(args, s1).
       if length args \<noteq> 3 then FailEvaluation n s1 args
       else (case UnfoldList n s1 (args ! 1) of
               None \<Rightarrow> None
             | Some (Inl e) \<Rightarrow> FailEvaluation n s1 args
             | Some (Inr list) \<Rightarrow>
                 (case as_Number s1 (args ! 2) of
                    None \<Rightarrow> FailEvaluation n s1 args
                  | Some v \<Rightarrow>
                      if unat v \<ge> length list then FailEvaluation n s1 args
                      else Return (list ! unat v, s1))))"

definition cmd_list_tail :: Command where
  "cmd_list_tail ev n sc args s =
     and_then (EvalArgs ev args s) (\<lambda>(args, s1).
       if length args \<noteq> 3 then FailEvaluation n s1 args
       else (case as_Number s1 (args ! 2) of
               None \<Rightarrow> FailEvaluation n s1 args
             | Some v \<Rightarrow>
                 (case drop_cells s1 (unat v) (args ! 1) of
                    None \<Rightarrow> FailEvaluation n s1 args
                  | Some object \<Rightarrow> Return (object, s1))))"

text \<open>
  \<open>define\<close>. Both forms write through \<open>Scope::SetVariable\<close>, first \<open>nullptr\<close> and then
  the value. In the second form the bare \<open>throw;\<close> on an empty signature has no
  exception to rethrow and calls \<open>std::terminate\<close>.
\<close>

definition cmd_define :: Command where
  "cmd_define ev n sc args s =
     (if length args \<le> 1 then Throw (SyntaxError ''Invalid define'')
      else
        (case as_Symbol s (args ! 1) of
           Some name \<Rightarrow>
             if length args \<noteq> 3 then Throw (SyntaxError ''Invalid define'')
             else
               and_then (ev (args ! 2) (SetVariable sc name None s)) (\<lambda>(v, s1).
                 Return (None, SetVariable sc name v s1))
         | None \<Rightarrow>
             if length args < 3 then Throw (SyntaxError ''Invalid define'')
             else
               and_then
                 (catch_all
                    (and_then (UnfoldList n s (args ! 1)) (\<lambda>list.
                       if length list = 0 then Throw Terminate else SymbolsToNames n s list))
                    (SyntaxError ''Invalid define''))
                 (\<lambda>names.
                    let func_name = hd names;
                        arg_names = tl names;
                        expressions = drop 2 args;
                        s1 = SetVariable sc func_name None s
                    in case new_Lambda arg_names (Some sc) expressions s1 of
                         (func, s2) \<Rightarrow> Return (None, SetVariable sc func_name func s2))))"

definition apostrophe :: string where
  "apostrophe = [CHR 0x27]"

definition cmd_set :: Command where
  "cmd_set ev n sc args s =
     (if length args \<noteq> 3 then Throw (SyntaxError ''Invalid set!'')
      else
        (case as_Symbol s (args ! 1) of
           None \<Rightarrow> Throw (SyntaxError ''Invalid set!'')
         | Some name \<Rightarrow>
             and_then (ev (args ! 2) s) (\<lambda>(v, s1).
               case FindVariable s1 sc name of
                 None \<Rightarrow>
                   Throw (NameError (''Variable doesn'' @ apostrophe @ ''t yet exist: '' @ name))
               | Some f \<Rightarrow> Return (None, assign_slot f name v s1))))"

definition cmd_set_car :: Command where
  "cmd_set_car ev n sc args s =
     (if length args \<noteq> 3 then Throw (SyntaxError ''Invalid set-car!'')
      else
        (case as_Symbol s (args ! 1) of
           None \<Rightarrow> Throw (SyntaxError ''Invalid set-car!'')
         | Some name \<Rightarrow>
             and_then (ev (args ! 2) s) (\<lambda>(v, s1).
               case FindVariable s1 sc name of
                 None \<Rightarrow>
                   Throw (NameError (''Variable doesn'' @ apostrophe @ ''t yet exist: '' @ name))
               | Some f \<Rightarrow>
                   (case slot_value s1 f name of
                      None \<Rightarrow> Throw (RuntimeError ''Cannot set-car! on a non-pair'')
                    | Some a \<Rightarrow>
                        (case objects s1 a of
                           Cell x y \<Rightarrow> Return (None, SetFirst a v s1)
                         | _ \<Rightarrow> Throw (RuntimeError ''Cannot set-car! on a non-pair''))))))"

text \<open>\<open>set-cdr!\<close> reports a non-pair with the message of \<open>set-car!\<close>.\<close>

definition cmd_set_cdr :: Command where
  "cmd_set_cdr ev n sc args s =
     (if length args \<noteq> 3 then Throw (SyntaxError ''Invalid set-cdr!'')
      else
        (case as_Symbol s (args ! 1) of
           None \<Rightarrow> Throw (SyntaxError ''Invalid set-cdr!'')
         | Some name \<Rightarrow>
             and_then (ev (args ! 2) s) (\<lambda>(v, s1).
               case FindVariable s1 sc name of
                 None \<Rightarrow>
                   Throw (NameError (''Variable doesn'' @ apostrophe @ ''t yet exist: '' @ name))
               | Some f \<Rightarrow>
                   (case slot_value s1 f name of
                      None \<Rightarrow> Throw (RuntimeError ''Cannot set-car! on a non-pair'')
                    | Some a \<Rightarrow>
                        (case objects s1 a of
                           Cell x y \<Rightarrow> Return (None, SetSecond a v s1)
                         | _ \<Rightarrow> Throw (RuntimeError ''Cannot set-car! on a non-pair''))))))"

definition cmd_lambda :: Command where
  "cmd_lambda ev n sc args s =
     (if length args < 3 then Throw (SyntaxError ''Invalid lambda'')
      else
        and_then
          (catch_all (and_then (UnfoldList n s (args ! 1)) (SymbolsToNames n s))
             (SyntaxError ''Invalid lambda''))
          (\<lambda>arg_names. Return (new_Lambda arg_names (Some sc) (drop 2 args) s)))"

definition cmd_if :: Command where
  "cmd_if ev n sc args s =
     (if length args \<noteq> 3 \<and> length args \<noteq> 4 then Throw (SyntaxError ''Invalid if'')
      else
        and_then (ev (args ! 1) s) (\<lambda>(c, s1).
          let condition = AsBoolean s1 c
          in if length args = 3 then
               (if condition then ev (args ! 2) s1 else Return (None, s1))
             else
               (if condition then ev (args ! 2) s1 else ev (args ! 3) s1)))"

text \<open>The table \<open>commands_\<close> that \<open>InitCommands\<close> fills.\<close>

definition commands :: "string \<Rightarrow> Command option" where
  "commands = map_of
     [(''quote'', cmd_quote),
      (''number?'', CheckTypeCommand (\<lambda>s p. as_Number s p \<noteq> None)),
      (''boolean?'', CheckTypeCommand (\<lambda>s p. as_Boolean s p \<noteq> None)),
      (''pair?'', CheckTypeCommand (\<lambda>s p. as_Cell s p \<noteq> None)),
      (''symbol?'', CheckTypeCommand (\<lambda>s p. as_Symbol s p \<noteq> None)),
      (''='', cmd_equal),
      (''<'', cmd_less),
      (''>'', cmd_greater),
      (''<='', cmd_less_equal),
      (''>='', cmd_greater_equal),
      (''+'', cmd_add),
      (''-'', cmd_subtract),
      (''*'', cmd_multiply),
      (''/'', cmd_divide),
      (''not'', cmd_not),
      (''and'', cmd_and),
      (''or'', cmd_or),
      (''min'', cmd_min),
      (''max'', cmd_max),
      (''abs'', cmd_abs),
      (''null?'', cmd_null),
      (''list?'', cmd_is_list),
      (''cons'', cmd_cons),
      (''car'', cmd_car),
      (''cdr'', cmd_cdr),
      (''list'', cmd_list),
      (''list-ref'', cmd_list_ref),
      (''list-tail'', cmd_list_tail),
      (''define'', cmd_define),
      (''set!'', cmd_set),
      (''set-car!'', cmd_set_car),
      (''set-cdr!'', cmd_set_cdr),
      (''lambda'', cmd_lambda),
      (''if'', cmd_if)]"

section \<open>Calling a closure (Lambda::Call)\<close>

text \<open>\<open>std::remove_if\<close> with the predicate \<open>GetRefs() <= 0\<close>, followed by \<open>erase\<close>.\<close>

definition prune :: "state \<Rightarrow> scope_handle list \<Rightarrow> scope_handle list" where
  "prune s local_scopes = filter (\<lambda>h. \<not> GetRefs s h \<le> 0) local_scopes"

fun bind_arguments :: "scope_handle \<Rightarrow> string list \<Rightarrow> ptr list \<Rightarrow> state \<Rightarrow> state" where
  "bind_arguments h (name # names) (v # vs) s =
     bind_arguments h names vs (SetLocalVariable h name v s)"
| "bind_arguments h names vs s = s"

fun EvalSequence :: "evaluator \<Rightarrow> ptr list \<Rightarrow> ptr \<Rightarrow> state \<Rightarrow> (ptr \<times> state) result" where
  "EvalSequence ev [] result s = Return (result, s)"
| "EvalSequence ev (e # es) result s = and_then (ev e s) (\<lambda>(v, s1). EvalSequence ev es v s1)"

text \<open>
  The first four statements of \<open>Lambda::Call\<close>: the new frame is constructed, the
  bookkeeping vector of the closure at \<open>this\<close> is pruned, and the new frame is pushed
  onto it.
\<close>

definition register_frame ::
  "addr \<Rightarrow> string list \<Rightarrow> weak_scope \<Rightarrow> ptr list \<Rightarrow> scope_handle list \<Rightarrow> state \<Rightarrow> scope_handle \<times> state" where
  "register_frame this arg_names scope expressions local_scopes s =
     (case new_Scope scope s of
        (local_scope, s1) \<Rightarrow>
          (local_scope,
           s1\<lparr>objects := (objects s1)(this :=
                Lambda arg_names scope expressions (prune s1 local_scopes @ [local_scope]))\<rparr>))"

text \<open>
  \<open>Lambda::Call\<close> on the closure at \<open>this\<close>, whose members are the next four arguments.
  \<open>evs h\<close> is \<open>Eval\<close> of a new \<open>Interpreter\<close> on the frame \<open>h\<close>; its constructor and
  destructor are the \<open>AddRef\<close> and the \<open>DelRef\<close>.
\<close>

definition Call ::
  "(scope_handle \<Rightarrow> evaluator) \<Rightarrow> nat \<Rightarrow> addr \<Rightarrow> string list \<Rightarrow> weak_scope \<Rightarrow> ptr list \<Rightarrow>
   scope_handle list \<Rightarrow> ptr list \<Rightarrow> state \<Rightarrow> (ptr \<times> state) result" where
  "Call evs n this arg_names scope expressions local_scopes args s =
     (case register_frame this arg_names scope expressions local_scopes s of
        (local_scope, s1) \<Rightarrow>
          if length args \<noteq> length arg_names then
            with_string (Lambda_ToString (ToString n s1) arg_names expressions) (\<lambda>str.
              Throw (RuntimeError (''Invalid number of arguments in for lambda: '' @ str)))
          else
            and_then
              (EvalSequence (evs local_scope) expressions None
                 (AddRef local_scope (bind_arguments local_scope arg_names args s1)))
              (\<lambda>(result, s2). Return (result, DelRef local_scope s2)))"

section \<open>Interpreter::Eval\<close>

definition cannot_evaluate :: "nat \<Rightarrow> state \<Rightarrow> ptr \<Rightarrow> 'a result" where
  "cannot_evaluate n s object =
     with_string (ToString n s object) (\<lambda>str. Throw (RuntimeError (''Cannot evaluate: '' @ str)))"

definition find_command :: "state \<Rightarrow> ptr \<Rightarrow> Command option" where
  "find_command s front =
     (case as_Symbol s front of None \<Rightarrow> None | Some name \<Rightarrow> commands name)"

text \<open>
  \<open>Eval\<close> of the interpreter whose \<open>scope_\<close> is \<open>sc\<close>. The first argument bounds the depth
  of the recursion; \<open>None\<close> is an evaluation that does not return within it.
\<close>

primrec Eval :: "nat \<Rightarrow> scope_handle \<Rightarrow> ptr \<Rightarrow> state \<Rightarrow> (ptr \<times> state) result" where
  "Eval 0 sc object s = None"
| "Eval (Suc n) sc object s =
     (case object of
        None \<Rightarrow> cannot_evaluate n s object
      | Some a \<Rightarrow>
          (case objects s a of
             Number v \<Rightarrow> Return (object, s)
           | Boolean b \<Rightarrow> Return (object, s)
           | Symbol name \<Rightarrow> and_then (GetVariable sc name s) (\<lambda>v. Return (v, s))
           | Cell f sec \<Rightarrow>
               and_then (UnfoldList n s object) (\<lambda>list.
                 case list of
                   [] \<Rightarrow> cannot_evaluate n s object
                 | front # rest \<Rightarrow>
                     (case find_command s front of
                        Some command \<Rightarrow> command (Eval n sc) n sc list s
                      | None \<Rightarrow>
                          and_then (Eval n sc front s) (\<lambda>(callee, s1).
                            case callee of
                              None \<Rightarrow> cannot_evaluate n s1 object
                            | Some this \<Rightarrow>
                                (case objects s1 this of
                                   Lambda arg_names scope expressions local_scopes \<Rightarrow>
                                     and_then (EvalEach (Eval n sc) rest s1) (\<lambda>(args, s2).
                                       case objects s2 this of
                                         Lambda arg_names scope expressions local_scopes \<Rightarrow>
                                           Call (Eval n) n this arg_names scope expressions
                                             local_scopes args s2
                                       | _ \<Rightarrow> None)
                                 | _ \<Rightarrow> cannot_evaluate n s1 object))))
           | Lambda arg_names scope expressions local_scopes \<Rightarrow> cannot_evaluate n s object))"

text \<open>The constructor \<open>Interpreter::Interpreter()\<close>: a root frame without parent.\<close>

definition new_Interpreter :: "state \<Rightarrow> scope_handle \<times> state" where
  "new_Interpreter s = (case new_Scope None s of (h, s1) \<Rightarrow> (h, AddRef h s1))"

section \<open>Object graphs of expressions\<close>

text \<open>
  The object graph that \<open>Read\<close> returns for an expression: atoms are allocated as they
  are read, and \<open>ReadList\<close> builds the cells of a list from its last element to its
  first once all elements are read.
\<close>

datatype sexp = N int | B bool | S string | L "sexp list"

fun build :: "sexp \<Rightarrow> state \<Rightarrow> ptr \<times> state"
  and build_each :: "sexp list \<Rightarrow> state \<Rightarrow> ptr list \<times> state" where
  "build (N i) s = GetNumberConstant (word_of_int i) s"
| "build (B b) s = GetBooleanConstant b s"
| "build (S name) s = new_object (Symbol name) s"
| "build (L xs) s = (case build_each xs s of (ps, s1) \<Rightarrow> MakeList ps s1)"
| "build_each [] s = ([], s)"
| "build_each (x # xs) s =
     (case build x s of (p, s1) \<Rightarrow> case build_each xs s1 of (ps, s2) \<Rightarrow> (p # ps, s2))"

definition empty_state :: state where
  "empty_state =
     \<lparr>objects = (\<lambda>a. Number 0), next_object = 0,
      scopes = (\<lambda>h. \<lparr>parent = None, variables = Map.empty, refs = 0, destroyed = False\<rparr>),
      next_scope = 0\<rparr>"

text \<open>An expression read into the store of a new interpreter, whose root frame is 0.\<close>

definition program :: "sexp \<Rightarrow> ptr \<times> state" where
  "program e = (case new_Interpreter empty_state of (h, s) \<Rightarrow> build e s)"

text \<open>
  \<open>Interpreter::Run\<close> on the expression that \<open>Read\<close> returns: the evaluation in the root
  frame and the rendering of the result.
\<close>

definition Run :: "nat \<Rightarrow> sexp \<Rightarrow> string result" where
  "Run n e =
     (case program e of
        (p, s) \<Rightarrow> and_then (Eval n 0 p s) (\<lambda>(v, s1). with_string (ToString n s1 v) Return))"

text \<open>What an evaluation returned, and what a frame binds a name to after it.\<close>

definition returned_value :: "(ptr \<times> state) result \<Rightarrow> ptr option" where
  "returned_value r = (case r of Some (Inr (v, s)) \<Rightarrow> Some v | _ \<Rightarrow> None)"


text \<open>A store that holds the closure \<open>(lambda (x) x)\<close> at address 0.\<close>

definition closure_state :: state where
  "closure_state =
     empty_state\<lparr>objects := (\<lambda>a. Number 0)(0 := Lambda [''x''] (Some 0) [Some 1] [], 1 := Symbol ''x''),
       next_object := 2, next_scope := 1\<rparr>"

text \<open>
  A store as it is during the call of a closure without parameters, after \<open>(define x 1)\<close>
  at top level: the root frame 0 binds \<open>x\<close> to the Number 1 at address 6, the frame 1 of
  the call has the root as its parent and binds nothing. The cells at 3, 4 and 5 are
  the form \<open>(define x 2)\<close>.
\<close>

definition two_frames :: state where
  "two_frames =
     \<lparr>objects = (\<lambda>a. Number 0)(0 := Symbol ''define'', 1 := Symbol ''x'', 2 := Number 2,
        3 := Cell (Some 2) None, 4 := Cell (Some 1) (Some 3), 5 := Cell (Some 0) (Some 4),
        6 := Number 1),
      next_object = 7,
      scopes = (\<lambda>h. \<lparr>parent = None, variables = Map.empty, refs = 0, destroyed = False\<rparr>)
        (0 := \<lparr>parent = None, variables = [''x'' \<mapsto> Some 6], refs = 2, destroyed = False\<rparr>,
         1 := \<lparr>parent = Some 0, variables = Map.empty, refs = 1, destroyed = False\<rparr>),
      next_scope = 2\<rparr>"

text \<open>A pointer that is null or points below the next free address.\<close>

definition allocated :: "state \<Rightarrow> ptr \<Rightarrow> bool" where
  "allocated s p = (case p of None \<Rightarrow> True | Some a \<Rightarrow> a < next_object s)"

text \<open>
  A store that holds the forms \<open>(-)\<close> at 4, \<open>(- 10)\<close> at 6 and \<open>(- 10 3 2)\<close> at 10.
\<close>

definition subtract_forms :: state where
  "subtract_forms =
     empty_state\<lparr>objects := (\<lambda>a. Number 0)(0 := Symbol ''-'', 1 := Number 10, 2 := Number 3,
        3 := Number 2, 4 := Cell (Some 0) None, 5 := Cell (Some 1) None,
        6 := Cell (Some 0) (Some 5), 7 := Cell (Some 3) None, 8 := Cell (Some 2) (Some 7),
        9 := Cell (Some 1) (Some 8), 10 := Cell (Some 0) (Some 9)),
       next_object := 11, next_scope := 1\<rparr>"

text \<open>
  A store that holds the forms \<open>(/ 7 2)\<close> at 7 and \<open>(/ -9223372036854775808 -1)\<close> at 10.
\<close>

definition divide_forms :: state where
  "divide_forms =
     empty_state\<lparr>objects := (\<lambda>a. Number 0)(0 := Symbol ''/'', 1 := Number 7, 2 := Number 2,
        3 := Number (- (2 ^ 63)), 4 := Number (- 1), 5 := Cell (Some 2) None,
        6 := Cell (Some 1) (Some 5), 7 := Cell (Some 0) (Some 6), 8 := Cell (Some 4) None,
        9 := Cell (Some 3) (Some 8), 10 := Cell (Some 0) (Some 9)),
       next_object := 11, next_scope := 1\<rparr>"

text \<open>
  What \<open>/\<close> folds from its first argument \<open>a\<close> over the rest: the quotient of each step
  is the dividend of the next. \<open>None\<close> when some step has no quotient, because the divisor
  is zero or the division overflows.
\<close>

fun quotients :: "64 word \<Rightarrow> 64 word list \<Rightarrow> 64 word option" where
  "quotients a [] = Some a"
| "quotients a (b # bs) =
     (if b = 0 then None
      else (case truncated_div a b of None \<Rightarrow> None | Some q \<Rightarrow> quotients q bs))"

text \<open>A store that holds the form \<open>(< 1 2 #t 3)\<close> at 9.\<close>

definition compare_forms :: state where
  "compare_forms =
     empty_state\<lparr>objects := (\<lambda>a. Number 0)(0 := Symbol ''<'', 1 := Number 1, 2 := Number 2,
        3 := Boolean True, 4 := Number 3, 5 := Cell (Some 4) None, 6 := Cell (Some 3) (Some 5),
        7 := Cell (Some 2) (Some 6), 8 := Cell (Some 1) (Some 7), 9 := Cell (Some 0) (Some 8)),
       next_object := 10, next_scope := 1\<rparr>"


text \<open>
  The values without a cycle: the empty list, the atoms, the closures, and the cells whose
  car and cdr are such values.
\<close>

inductive finite_value :: "state \<Rightarrow> ptr \<Rightarrow> bool" where
  finite_nullptr: "finite_value s None"
| finite_Number: "objects s a = Number v \<Longrightarrow> finite_value s (Some a)"
| finite_Boolean: "objects s a = Boolean b \<Longrightarrow> finite_value s (Some a)"
| finite_Symbol: "objects s a = Symbol name \<Longrightarrow> finite_value s (Some a)"
| finite_Lambda:
    "objects s a = Lambda arg_names scope expressions local_scopes \<Longrightarrow> finite_value s (Some a)"
| finite_Cell:
    "objects s a = Cell f sec \<Longrightarrow> finite_value s f \<Longrightarrow> finite_value s sec \<Longrightarrow>
     finite_value s (Some a)"

text \<open>
  The store of an interpreter whose root frame binds \<open>x\<close> to the one-element list \<open>(1)\<close>
  at address 0, with the form \<open>(set-cdr! x x)\<close> at 7.
\<close>

definition pair_state :: state where
  "pair_state =
     \<lparr>objects = (\<lambda>a. Number 0)(0 := Cell (Some 1) None, 1 := Number 1, 2 := Symbol ''set-cdr!'',
        3 := Symbol ''x'', 4 := Symbol ''x'', 5 := Cell (Some 4) None, 6 := Cell (Some 3) (Some 5),
        7 := Cell (Some 2) (Some 6)),
      next_object = 8,
      scopes = (\<lambda>h. \<lparr>parent = None, variables = Map.empty, refs = 0, destroyed = False\<rparr>)
        (0 := \<lparr>parent = None, variables = [''x'' \<mapsto> Some 0], refs = 1, destroyed = False\<rparr>),
      next_scope = 1\<rparr>"




section \<open>Basic facts\<close>

lemma and_then_None [simp]: "and_then None f = None"
  by (simp add: and_then_def)

lemma and_then_Throw [simp]: "and_then (Throw e) f = Throw e"
  by (simp add: and_then_def)

lemma and_then_Return [simp]: "and_then (Return x) f = f x"
  by (simp add: and_then_def)

lemma with_string_None [simp]: "with_string None f = None"
  by (simp add: with_string_def)

lemma with_string_Some [simp]: "with_string (Some str) f = f str"
  by (simp add: with_string_def)

lemma and_then_eq_Return:
  "and_then m f = Return y \<Longrightarrow> \<exists>x. m = Return x \<and> f x = Return y"
  by (auto simp: and_then_def split: option.splits sum.splits)

lemma to_string_0: "to_string 0 = ''0''"
  by (simp add: to_string_def dec.simps digit_char_def)

lemmas program_simps =
  program_def new_Interpreter_def new_Scope_def AddRef_def update_scope_def empty_state_def
  GetNumberConstant_def GetBooleanConstant_def new_object_def

section \<open>Division by zero\<close>

lemma commands_divide: "commands ''/'' = Some cmd_divide"
  by (simp add: commands_def)

text \<open>
  C9: for every Number \<open>v\<close>, evaluating the form \<open>(/ v 0)\<close> throws a RuntimeError and
  returns no value. The form is given by its three cells; five levels of recursion
  are enough, and any larger bound gives the same result.
\<close>

theorem divide_by_zero_fails:
  assumes "objects s p = Cell (Some c) (Some p1)"
    and "objects s p1 = Cell (Some a) (Some p2)"
    and "objects s p2 = Cell (Some b) None"
    and "objects s c = Symbol ''/''"
    and "objects s a = Number v"
    and "objects s b = Number 0"
  shows "Eval (n + 5) sc (Some p) s =
           Throw (RuntimeError (''Cannot divide: '' @ to_string v @ '' and 0''))"
proof -
  have fuel: "n + 5 = Suc (Suc (Suc (Suc (Suc n))))"
    by simp
  have unfold: "UnfoldList (Suc (Suc (Suc (Suc n)))) s (Some p) = Return [Some c, Some a, Some b]"
    using assms by simp
  have cmd: "find_command s (Some c) = Some cmd_divide"
    using assms by (simp add: find_command_def as_Symbol_def commands_divide)
  have args: "EvalArgs (Eval (Suc (Suc (Suc (Suc n)))) sc) [Some c, Some a, Some b] s =
                Return ([Some c, Some a, Some b], s)"
    using assms by (simp add: EvalArgs_def)
  have div: "Divide (Suc (Suc (Suc (Suc n)))) (Some a) (Some b) s =
               Throw (RuntimeError (''Cannot divide: '' @ to_string v @ '' and 0''))"
    using assms by (simp add: Divide_def as_Number_def fail_arith_def to_string_0)
  have "cmd_divide (Eval (Suc (Suc (Suc (Suc n)))) sc) (Suc (Suc (Suc (Suc n)))) sc
          [Some c, Some a, Some b] s =
        Throw (RuntimeError (''Cannot divide: '' @ to_string v @ '' and 0''))"
    unfolding cmd_divide_def args using div by simp
  then show ?thesis
    unfolding fuel using assms(1) unfold cmd by (simp del: UnfoldList.simps)
qed

theorem divide_by_zero_fails_witness:
  "Eval 5 0 (fst (program (L [S ''/'', N 7, N 0]))) (snd (program (L [S ''/'', N 7, N 0]))) =
     Throw (RuntimeError ''Cannot divide: 7 and 0'')"
proof -
  have p: "fst (program (L [S ''/'', N 7, N 0])) = Some 5"
    by (simp add: program_simps eval_nat_numeral)
  have o: "objects (snd (program (L [S ''/'', N 7, N 0]))) =
       (\<lambda>a. Number 0)(0 := Symbol ''/'', 1 := Number 7, 2 := Number 0, 3 := Cell (Some 2) None,
          4 := Cell (Some 1) (Some 3), 5 := Cell (Some 0) (Some 4))"
    by (simp add: program_simps eval_nat_numeral)
  have r: "to_string 7 = ''7''"
    by (simp add: to_string_def dec.simps digit_char_def)
  show ?thesis
    using divide_by_zero_fails [of "snd (program (L [S ''/'', N 7, N 0]))" 5 0 4 1 3 2 7 0 0]
    by (simp add: o r p)
qed

section \<open>Rendering a closure\<close>

lemma Lambda_ToString_no_names:
  "Lambda_ToString ts [] [e] = map_option (\<lambda>str. ''(lambda ) '' @ str @ '')'') (ts e)"
  by (cases "ts e") (simp_all add: Lambda_ToString_def)

text \<open>
  C8: the rendering of a closure is \<open>(lambda (<params>) <body...>)\<close> with the parameter
  list in parentheses of its own. For the closure that \<open>(lambda () 1)\<close> evaluates to,
  \<open>Lambda::ToString\<close> has no trailing space to overwrite and overwrites the opening
  parenthesis of the parameter list instead: the rendering is \<open>(lambda ) 1)\<close>.
\<close>

theorem Lambda_ToString_empty_parameters:
  "Run 5 (L [S ''lambda'', L [], N 1]) = Return ''(lambda ) 1)''"
  by code_simp

section \<open>Scope::SetLocalVariable\<close>

lemma SetLocalVariable_lookup:
  "variables (scopes (SetLocalVariable h name v s) h) name =
     (case variables (scopes s h) name of None \<Rightarrow> Some v | Some old \<Rightarrow> Some old)"
  by (simp add: SetLocalVariable_def update_scope_def split: option.splits)

text \<open>
  C4: \<open>SetLocalVariable(name, value)\<close> creates the binding if absent and overwrites it if
  the frame already binds the name. In the store \<open>two_frames\<close> the root frame binds \<open>x\<close>
  to the object at 6; after \<open>SetLocalVariable("x", 2)\<close> on that frame it still does.
\<close>

theorem SetLocalVariable_keeps_existing_binding:
  "variables (scopes two_frames 0) ''x'' = Some (Some 6) \<and>
   variables (scopes (SetLocalVariable 0 ''x'' (Some 2) two_frames) 0) ''x'' = Some (Some 6)"
  by (simp add: SetLocalVariable_def update_scope_def two_frames_def)

section \<open>Values that Eval rejects\<close>

text \<open>
  C3, as stated: \<open>Eval\<close> returns the empty list unchanged. The expression \<open>()\<close>, which is
  not in operator position, throws instead and returns nothing.
\<close>

theorem Eval_empty_list_counterexample:
  "Run 3 (L []) = Throw (RuntimeError ''Cannot evaluate: ()'') \<and>
   returned_value (Eval 3 0 None (snd (program (L [])))) = None"
  by code_simp

text \<open>
  C3, amended: \<open>Eval\<close> of the empty list throws the RuntimeError \<open>Cannot evaluate: ()\<close>
  wherever the empty list is evaluated, and \<open>Eval\<close> of a closure throws the RuntimeError
  \<open>Cannot evaluate:\<close> followed by the rendering of the closure, as soon as that rendering
  returns; it never returns the closure.
\<close>

theorem Eval_nullptr_and_Lambda_fail:
  "Eval (Suc (Suc n)) sc None s = Throw (RuntimeError ''Cannot evaluate: ()'') \<and>
   (objects s a = Lambda arg_names scope expressions local_scopes \<longrightarrow>
      Eval (Suc n) sc (Some a) s =
        with_string (ToString n s (Some a)) (\<lambda>str. Throw (RuntimeError (''Cannot evaluate: '' @ str))))"
  by (simp add: cannot_evaluate_def)

theorem Eval_nullptr_and_Lambda_fail_witness:
  "Eval 3 0 None closure_state = Throw (RuntimeError ''Cannot evaluate: ()'') \<and>
   Eval 3 0 (Some 0) closure_state = Throw (RuntimeError ''Cannot evaluate: (lambda (x) x)'')"
proof -
  have o: "objects closure_state 0 = Lambda [''x''] (Some 0) [Some 1] []"
    by (simp add: closure_state_def)
  have o1: "objects closure_state (Suc 0) = Symbol ''x''"
    by (simp add: closure_state_def)
  have r: "ToString 2 closure_state (Some 0) = Some ''(lambda (x) x)''"
    by (simp add: eval_nat_numeral o o1 Lambda_ToString_def)
  have three: "(3::nat) = Suc (Suc 1)" "(3::nat) = Suc 2"
    by simp_all
  note thm1 = Eval_nullptr_and_Lambda_fail [of 1 0 closure_state 0 "[''x'']" "Some 0" "[Some 1]" "[]"]
  note thm2 = Eval_nullptr_and_Lambda_fail [of 2 0 closure_state 0 "[''x'']" "Some 0" "[Some 1]" "[]"]
  have a: "Eval 3 0 None closure_state = Throw (RuntimeError ''Cannot evaluate: ()'')"
    unfolding three(1) using thm1 by blast
  have "Eval (Suc 2) 0 (Some 0) closure_state =
      with_string (ToString 2 closure_state (Some 0))
        (\<lambda>str. Throw (RuntimeError (''Cannot evaluate: '' @ str)))"
    using thm2 o by blast
  then have b: "Eval 3 0 (Some 0) closure_state =
      Throw (RuntimeError ''Cannot evaluate: (lambda (x) x)'')"
    unfolding three(2) r by simp
  show ?thesis
    using a b by simp
qed

section \<open>Dispatch to a command\<close>

lemma UnfoldList_Cell:
  "objects s a = Cell f sec \<Longrightarrow> UnfoldList n s (Some a) = Return list \<Longrightarrow> \<exists>rest. list = f # rest"
  by (cases n) (auto dest!: and_then_eq_Return)

lemma cmd_define_returns_nullptr:
  "cmd_define ev n sc args s = Return (v, s') \<Longrightarrow> v = None"
  by (auto simp: cmd_define_def Let_def split: if_splits option.splits prod.splits
      dest!: and_then_eq_Return)

lemma cmd_set_returns_nullptr:
  "cmd_set ev n sc args s = Return (v, s') \<Longrightarrow> v = None"
  by (auto simp: cmd_set_def split: if_splits option.splits prod.splits
      dest!: and_then_eq_Return)

lemma cmd_set_car_returns_nullptr:
  "cmd_set_car ev n sc args s = Return (v, s') \<Longrightarrow> v = None"
  by (auto simp: cmd_set_car_def split: if_splits option.splits prod.splits Object.splits
      dest!: and_then_eq_Return)

lemma cmd_set_cdr_returns_nullptr:
  "cmd_set_cdr ev n sc args s = Return (v, s') \<Longrightarrow> v = None"
  by (auto simp: cmd_set_cdr_def split: if_splits option.splits prod.splits Object.splits
      dest!: and_then_eq_Return)

lemma commands_mutators:
  "commands ''define'' = Some cmd_define"
  "commands ''set!'' = Some cmd_set"
  "commands ''set-car!'' = Some cmd_set_car"
  "commands ''set-cdr!'' = Some cmd_set_cdr"
  by (simp_all add: commands_def)

lemma Eval_command:
  assumes "objects s a = Cell (Some h) rest"
    and "objects s h = Symbol name"
    and "commands name = Some command"
    and "Eval k sc (Some a) s = Return r"
  shows "\<exists>n list. k = Suc n \<and> UnfoldList n s (Some a) = Return (Some h # list) \<and>
           command (Eval n sc) n sc (Some h # list) s = Return r"
proof (cases k)
  case 0
  with assms(4) show ?thesis by simp
next
  case (Suc n)
  from assms(4) obtain list where u: "UnfoldList n s (Some a) = Return list"
    and c: "(case list of [] \<Rightarrow> cannot_evaluate n s (Some a)
          | front # rest \<Rightarrow>
              (case find_command s front of
                 Some command \<Rightarrow> command (Eval n sc) n sc list s
               | None \<Rightarrow>
                   and_then (Eval n sc front s) (\<lambda>(callee, s1).
                     case callee of
                       None \<Rightarrow> cannot_evaluate n s1 (Some a)
                     | Some this \<Rightarrow>
                         (case objects s1 this of
                            Lambda arg_names scope expressions local_scopes \<Rightarrow>
                              and_then (EvalEach (Eval n sc) rest s1) (\<lambda>(args, s2).
                                case objects s2 this of
                                  Lambda arg_names scope expressions local_scopes \<Rightarrow>
                                    Call (Eval n) n this arg_names scope expressions
                                      local_scopes args s2
                                | _ \<Rightarrow> None)
                          | _ \<Rightarrow> cannot_evaluate n s1 (Some a))))) = Return r"
    unfolding Suc using assms(1) by (auto simp del: UnfoldList.simps dest!: and_then_eq_Return)
  from UnfoldList_Cell [OF assms(1) u] obtain tl where l: "list = Some h # tl"
    by blast
  have f: "find_command s (Some h) = Some command"
    using assms(2,3) by (simp add: find_command_def as_Symbol_def)
  from c have "command (Eval n sc) n sc (Some h # tl) s = Return r"
    unfolding l by (simp add: f)
  with u l Suc show ?thesis
    by blast
qed

section \<open>The result of the mutating forms\<close>

text \<open>
  C10: every evaluation of a form whose head is \<open>define\<close>, \<open>set!\<close>, \<open>set-car!\<close> or
  \<open>set-cdr!\<close> that returns, returns \<open>nullptr\<close>, the empty list, which \<open>ToString\<close> renders
  as \<open>()\<close>, whatever value was bound or stored.
\<close>

theorem mutators_return_empty_list:
  assumes "objects s a = Cell (Some h) rest"
    and "objects s h = Symbol name"
    and "name \<in> {''define'', ''set!'', ''set-car!'', ''set-cdr!''}"
    and "Eval k sc (Some a) s = Return (v, s')"
  shows "v = None \<and> ToString (Suc m) s' v = Some ''()''"
proof -
  from assms(3) consider "name = ''define''" | "name = ''set!''" | "name = ''set-car!''"
    | "name = ''set-cdr!''"
    by blast
  then have "v = None"
  proof cases
    case 1
    with Eval_command [OF assms(1,2) _ assms(4), of cmd_define] show ?thesis
      by (auto simp: commands_mutators dest: cmd_define_returns_nullptr)
  next
    case 2
    with Eval_command [OF assms(1,2) _ assms(4), of cmd_set] show ?thesis
      by (auto simp: commands_mutators dest: cmd_set_returns_nullptr)
  next
    case 3
    with Eval_command [OF assms(1,2) _ assms(4), of cmd_set_car] show ?thesis
      by (auto simp: commands_mutators dest: cmd_set_car_returns_nullptr)
  next
    case 4
    with Eval_command [OF assms(1,2) _ assms(4), of cmd_set_cdr] show ?thesis
      by (auto simp: commands_mutators dest: cmd_set_cdr_returns_nullptr)
  qed
  then show ?thesis
    by simp
qed

theorem mutators_return_empty_list_witness:
  "returned_value (Eval 6 1 (Some 5) two_frames) = Some None"
proof -
  have "returned_value (Eval 6 1 (Some 5) two_frames) \<noteq> None"
    by code_simp
  then obtain v s' where r: "Eval 6 1 (Some 5) two_frames = Return (v, s')"
    by (auto simp: returned_value_def split: option.splits sum.splits)
  have "v = None"
    using mutators_return_empty_list [of two_frames 5 0 "Some 4" "''define''" 6 1 v s' 0] r
    by (simp add: two_frames_def)
  with r show ?thesis
    by (simp add: returned_value_def)
qed

section \<open>Subtraction and division\<close>

lemma Eval_dispatch:
  assumes "objects s a = Cell f sec"
    and "UnfoldList n s (Some a) = Return (Some h # rest)"
    and "objects s h = Symbol name"
    and "commands name = Some command"
  shows "Eval (Suc n) sc (Some a) s = command (Eval n sc) n sc (Some h # rest) s"
  using assms by (simp add: find_command_def as_Symbol_def del: UnfoldList.simps)

lemma commands_arith:
  "commands ''-'' = Some cmd_subtract"
  "commands ''/'' = Some cmd_divide"
  by (simp_all add: commands_def)

lemma as_Number_new_object:
  "allocated s p \<Longrightarrow> as_Number (snd (new_object ob s)) p = as_Number s p"
  by (auto simp: allocated_def as_Number_def new_object_def split: option.splits)

lemma allocated_new_object:
  "allocated s p \<Longrightarrow> allocated (snd (new_object ob s)) p"
  by (auto simp: allocated_def new_object_def split: option.splits)

lemma as_Number_fresh:
  "as_Number (snd (new_object (Number v) s)) (fst (new_object (Number v) s)) = Some v"
  by (simp add: as_Number_def new_object_def)

lemma FoldArith_numbers:
  assumes op: "\<And>x y l r s. as_Number s x = Some l \<Longrightarrow> as_Number s y = Some r \<Longrightarrow> ok r \<Longrightarrow>
                 op x y s = Return (new_object (Number (f l r)) s)"
  shows "as_Number s acc = Some a \<Longrightarrow> map (as_Number s) xs = map Some bs \<Longrightarrow>
         list_all (allocated s) xs \<Longrightarrow> list_all ok bs \<Longrightarrow>
         \<exists>r s'. FoldArith op acc xs s = Return (r, s') \<and> as_Number s' r = Some (foldl f a bs)"
proof (induction xs arbitrary: acc a bs s)
  case Nil
  then show ?case by simp
next
  case (Cons x xs)
  from Cons.prems(2) obtain b bs' where bs: "bs = b # bs'" and x: "as_Number s x = Some b"
    and xs: "map (as_Number s) xs = map Some bs'"
    by (cases bs) auto
  let ?s1 = "snd (new_object (Number (f a b)) s)"
  let ?r = "fst (new_object (Number (f a b)) s)"
  have step: "op acc x s = Return (?r, ?s1)"
    using op [OF Cons.prems(1) x] Cons.prems(4) bs by simp
  have alloc: "list_all (allocated s) xs"
    using Cons.prems(3) by simp
  have xs1: "map (as_Number ?s1) xs = map Some bs'"
    using xs alloc by (induction xs arbitrary: bs') (auto simp: as_Number_new_object)
  have alloc1: "list_all (allocated ?s1) xs"
    using alloc by (induction xs) (auto simp: allocated_new_object)
  from Cons.IH [OF as_Number_fresh xs1 alloc1] Cons.prems(4) bs
  obtain r s' where "FoldArith op ?r xs ?s1 = Return (r, s')"
    and "as_Number s' r = Some (foldl f (f a b) bs')"
    by auto
  then show ?case
    using step bs by (auto simp: split_beta)
qed

lemma Subtract_numbers:
  "as_Number s x = Some l \<Longrightarrow> as_Number s y = Some r \<Longrightarrow> True \<Longrightarrow>
     Subtract n x y s = Return (new_object (Number (l - r)) s)"
  by (simp add: Subtract_def GetNumberConstant_def)

lemma Divide_numbers:
  "as_Number s x = Some l \<Longrightarrow> as_Number s y = Some r \<Longrightarrow> r \<noteq> 0 \<Longrightarrow>
     truncated_div l r = Some q \<Longrightarrow> Divide n x y s = Return (new_object (Number q) s)"
  by (simp add: Divide_def GetNumberConstant_def)

lemma Divide_no_quotient:
  "as_Number s x = Some l \<Longrightarrow> as_Number s y = Some r \<Longrightarrow> r = 0 \<or> truncated_div l r = None \<Longrightarrow>
     Divide n x y s \<noteq> Return z"
  by (auto simp: Divide_def fail_arith_def with_string_def split: option.splits)

lemma FoldArith_Divide:
  "as_Number s acc = Some a \<Longrightarrow> map (as_Number s) xs = map Some bs \<Longrightarrow>
   list_all (allocated s) xs \<Longrightarrow>
   (case quotients a bs of
      Some q \<Rightarrow> \<exists>r s'. FoldArith (Divide n) acc xs s = Return (r, s') \<and> as_Number s' r = Some q
    | None \<Rightarrow> \<forall>z. FoldArith (Divide n) acc xs s \<noteq> Return z)"
proof (induction xs arbitrary: acc a bs s)
  case Nil
  then show ?case by simp
next
  case (Cons x xs)
  from Cons.prems(2) obtain b bs' where bs: "bs = b # bs'" and x: "as_Number s x = Some b"
    and xs: "map (as_Number s) xs = map Some bs'"
    by (cases bs) auto
  show ?case
  proof (cases "b = 0 \<or> truncated_div a b = None")
    case True
    then have "quotients a bs = None"
      using bs by auto
    moreover have "FoldArith (Divide n) acc (x # xs) s \<noteq> Return z" for z
      using Divide_no_quotient [OF Cons.prems(1) x True] by (auto dest!: and_then_eq_Return)
    ultimately show ?thesis
      by simp
  next
    case False
    then obtain q where q: "truncated_div a b = Some q" and b: "b \<noteq> 0"
      by auto
    let ?s1 = "snd (new_object (Number q) s)"
    let ?r = "fst (new_object (Number q) s)"
    have step: "Divide n acc x s = Return (?r, ?s1)"
      using Divide_numbers [OF Cons.prems(1) x b q] by simp
    have alloc: "list_all (allocated s) xs"
      using Cons.prems(3) by simp
    have xs1: "map (as_Number ?s1) xs = map Some bs'"
      using xs alloc by (induction xs arbitrary: bs') (auto simp: as_Number_new_object)
    have alloc1: "list_all (allocated ?s1) xs"
      using alloc by (induction xs) (auto simp: allocated_new_object)
    have quot: "quotients a bs = quotients q bs'"
      using bs q b by simp
    have fold: "FoldArith (Divide n) acc (x # xs) s = FoldArith (Divide n) ?r xs ?s1"
      using step by (simp add: split_beta)
    show ?thesis
      unfolding quot fold by (rule Cons.IH [OF as_Number_fresh xs1 alloc1])
  qed
qed

lemma EvalEach_nil [simp]: "EvalEach ev [] s = Return ([], s)"
  by simp

lemma cmd_subtract_no_argument:
  assumes "objects s c = Symbol name"
  shows "cmd_subtract ev (Suc n) sc [Some c] s =
           Throw (RuntimeError (''Failed to evaluate: ( '' @ name @ '')''))"
  using assms by (simp add: cmd_subtract_def EvalArgs_def FailEvaluation_def)

lemma cmd_divide_no_argument:
  assumes "objects s c = Symbol name"
  shows "cmd_divide ev (Suc n) sc [Some c] s =
           Throw (RuntimeError (''Failed to evaluate: ( '' @ name @ '')''))"
  using assms by (simp add: cmd_divide_def EvalArgs_def FailEvaluation_def)

lemma cmd_subtract_one_argument:
  assumes "ev e s = Return (v, s1)"
  shows "cmd_subtract ev n sc [c, e] s = Return (v, s1)"
  using assms by (simp add: cmd_subtract_def EvalArgs_def)

lemma cmd_divide_one_argument:
  assumes "ev e s = Return (v, s1)"
  shows "cmd_divide ev n sc [c, e] s = Return (v, s1)"
  using assms by (simp add: cmd_divide_def EvalArgs_def)

lemma cmd_subtract_numbers:
  assumes "EvalEach ev es s = Return (x # xs, s1)"
    and "as_Number s1 x = Some a"
    and "map (as_Number s1) xs = map Some bs"
    and "list_all (allocated s1) xs"
  shows "\<exists>r s'. cmd_subtract ev n sc (c # es) s = Return (r, s') \<and>
           as_Number s' r = Some (foldl (-) a bs)"
proof -
  have eq: "cmd_subtract ev n sc (c # es) s = FoldArith (Subtract n) x xs s1"
    using assms(1) by (simp add: cmd_subtract_def EvalArgs_def)
  have ok: "list_all (\<lambda>r. True) bs"
    by (simp add: list_all_iff)
  have op: "\<And>x y l r s. as_Number s x = Some l \<Longrightarrow> as_Number s y = Some r \<Longrightarrow> True \<Longrightarrow>
      Subtract n x y s = Return (new_object (Number (l - r)) s)"
    by (rule Subtract_numbers)
  show ?thesis
    unfolding eq
    by (rule FoldArith_numbers [where ok = "\<lambda>r. True", OF op assms(2,3,4) ok])
qed

lemma cmd_divide_numbers:
  assumes "EvalEach ev es s = Return (x # xs, s1)"
    and "as_Number s1 x = Some a"
    and "map (as_Number s1) xs = map Some bs"
    and "list_all (allocated s1) xs"
  shows "case quotients a bs of
           Some q \<Rightarrow> \<exists>r s'. cmd_divide ev n sc (c # es) s = Return (r, s') \<and>
             as_Number s' r = Some q
         | None \<Rightarrow> \<forall>z. cmd_divide ev n sc (c # es) s \<noteq> Return z"
proof -
  have eq: "cmd_divide ev n sc (c # es) s = FoldArith (Divide n) x xs s1"
    using assms(1) by (simp add: cmd_divide_def EvalArgs_def)
  show ?thesis
    unfolding eq by (rule FoldArith_Divide [OF assms(2,3,4)])
qed

text \<open>
  C7, as stated: \<open>-\<close> and \<open>/\<close> applied to exactly one argument fail with a RuntimeError.
  \<open>(- 5)\<close> and \<open>(/ 5)\<close> return 5.
\<close>

theorem subtract_one_argument_counterexample:
  "Run 5 (L [S ''-'', N 5]) = Return ''5'' \<and> Run 5 (L [S ''/'', N 5]) = Return ''5''"
  by code_simp

text \<open>
  C7, amended: \<open>-\<close> and \<open>/\<close> require at least one argument. Applied to no argument
  they throw the RuntimeError of \<open>FailEvaluation\<close>; applied to exactly one argument they
  return its value unchanged, whatever it is. Applied to arguments that evaluate to
  Numbers, \<open>-\<close> returns the Number obtained by folding the wrapping subtraction from the
  left, starting from the first argument; \<open>/\<close> returns the Number obtained by folding the
  truncating division in the same way, provided that every step has a quotient: no divisor
  is zero and no step divides the least \<open>int64_t\<close> by \<open>-1\<close>. When a step has no
  quotient, \<open>/\<close> returns nothing.
\<close>

theorem subtract_divide_arguments:
  assumes "objects s c = Symbol name" and "name = ''-'' \<or> name = ''/''"
  shows "(objects s p = Cell (Some c) None \<longrightarrow>
            Eval (n + 3) sc (Some p) s =
              Throw (RuntimeError (''Failed to evaluate: ( '' @ name @ '')''))) \<and>
         (objects s p = Cell (Some c) (Some p1) \<and> objects s p1 = Cell e None \<and>
          Eval (n + 3) sc e s = Return (v, sa) \<longrightarrow>
            Eval (n + 4) sc (Some p) s = Return (v, sa)) \<and>
         (objects s p = Cell (Some c) rest \<and> UnfoldList n s (Some p) = Return (Some c # es) \<and>
          EvalEach (Eval n sc) es s = Return (x # xs, sb) \<and> as_Number sb x = Some a \<and>
          map (as_Number sb) xs = map Some bs \<and> list_all (allocated sb) xs \<longrightarrow>
            (if name = ''-'' then
               \<exists>r s'. Eval (Suc n) sc (Some p) s = Return (r, s') \<and>
                 as_Number s' r = Some (foldl (-) a bs)
             else
               case quotients a bs of
                 Some q \<Rightarrow>
                   \<exists>r s'. Eval (Suc n) sc (Some p) s = Return (r, s') \<and> as_Number s' r = Some q
               | None \<Rightarrow> \<forall>z. Eval (Suc n) sc (Some p) s \<noteq> Return z))"
proof -
  obtain command where cmd: "commands name = Some command"
    and command: "command = (if name = ''-'' then cmd_subtract else cmd_divide)"
    using assms(2) by (auto simp: commands_arith)
  have three: "n + 3 = Suc (Suc (Suc n))" and four: "n + 4 = Suc (Suc (Suc (Suc n)))"
    by simp_all
  have none: "Eval (n + 3) sc (Some p) s =
      Throw (RuntimeError (''Failed to evaluate: ( '' @ name @ '')''))"
    if p: "objects s p = Cell (Some c) None"
  proof -
    have "UnfoldList (Suc (Suc n)) s (Some p) = Return [Some c]"
      using p by simp
    from Eval_dispatch [OF p this assms(1) cmd]
    show ?thesis
      unfolding three command
      using assms(1) cmd_subtract_no_argument cmd_divide_no_argument by simp
  qed
  have one: "Eval (n + 4) sc (Some p) s = Return (v, sa)"
    if p: "objects s p = Cell (Some c) (Some p1)" and p1: "objects s p1 = Cell e None"
      and e: "Eval (n + 3) sc e s = Return (v, sa)"
  proof -
    have "UnfoldList (Suc (Suc (Suc n))) s (Some p) = Return [Some c, e]"
      using p p1 by simp
    from Eval_dispatch [OF p this assms(1) cmd]
    show ?thesis
      unfolding four command
      using e [unfolded three] cmd_subtract_one_argument cmd_divide_one_argument by simp
  qed
  have more: "if name = ''-'' then
        \<exists>r s'. Eval (Suc n) sc (Some p) s = Return (r, s') \<and>
          as_Number s' r = Some (foldl (-) a bs)
      else
        case quotients a bs of
          Some q \<Rightarrow>
            \<exists>r s'. Eval (Suc n) sc (Some p) s = Return (r, s') \<and> as_Number s' r = Some q
        | None \<Rightarrow> \<forall>z. Eval (Suc n) sc (Some p) s \<noteq> Return z"
    if p: "objects s p = Cell (Some c) rest"
      and u: "UnfoldList n s (Some p) = Return (Some c # es)"
      and ev: "EvalEach (Eval n sc) es s = Return (x # xs, sb)"
      and x: "as_Number sb x = Some a"
      and xs: "map (as_Number sb) xs = map Some bs"
      and al: "list_all (allocated sb) xs"
  proof (cases "name = ''-''")
    case True
    then show ?thesis
      using Eval_dispatch [OF p u assms(1) cmd] command
        cmd_subtract_numbers [OF ev x xs al, of n sc "Some c"]
      by simp
  next
    case False
    then have eq: "Eval (Suc n) sc (Some p) s = cmd_divide (Eval n sc) n sc (Some c # es) s"
      using Eval_dispatch [OF p u assms(1) cmd] command by simp
    show ?thesis
      using False cmd_divide_numbers [OF ev x xs al, of n sc "Some c"]
      unfolding eq by simp
  qed
  show ?thesis
    using none one more by blast
qed

lemma subtract_forms_objects:
  "objects subtract_forms 0 = Symbol ''-''"
  "objects subtract_forms (Suc 0) = Number 10"
  "objects subtract_forms 2 = Number 3"
  "objects subtract_forms 3 = Number 2"
  "objects subtract_forms 4 = Cell (Some 0) None"
  "objects subtract_forms 5 = Cell (Some 1) None"
  "objects subtract_forms 6 = Cell (Some 0) (Some 5)"
  "objects subtract_forms 7 = Cell (Some 3) None"
  "objects subtract_forms 8 = Cell (Some 2) (Some 7)"
  "objects subtract_forms 9 = Cell (Some 1) (Some 8)"
  "objects subtract_forms 10 = Cell (Some 0) (Some 9)"
  "next_object subtract_forms = 11"
  by (simp_all add: subtract_forms_def)

lemma divide_forms_objects:
  "objects divide_forms 0 = Symbol ''/''"
  "objects divide_forms (Suc 0) = Number 7"
  "objects divide_forms 2 = Number 2"
  "objects divide_forms 3 = Number (- (2 ^ 63))"
  "objects divide_forms 4 = Number (- 1)"
  "objects divide_forms 5 = Cell (Some 2) None"
  "objects divide_forms 6 = Cell (Some 1) (Some 5)"
  "objects divide_forms 7 = Cell (Some 0) (Some 6)"
  "objects divide_forms 8 = Cell (Some 4) None"
  "objects divide_forms 9 = Cell (Some 3) (Some 8)"
  "objects divide_forms 10 = Cell (Some 0) (Some 9)"
  "next_object divide_forms = 11"
  by (simp_all add: divide_forms_def)

lemma quotients_examples:
  "quotients 7 [2] = Some 3"
  "quotients (- (2 ^ 63)) [- 1] = None"
  by (simp_all add: truncated_div_def)

theorem subtract_divide_arguments_witness:
  "Eval 3 0 (Some 4) subtract_forms = Throw (RuntimeError ''Failed to evaluate: ( -)'') \<and>
   Eval 4 0 (Some 6) subtract_forms = Return (Some 1, subtract_forms) \<and>
   (\<exists>r s'. Eval 6 0 (Some 10) subtract_forms = Return (r, s') \<and> as_Number s' r = Some 5) \<and>
   (\<exists>r s'. Eval 5 0 (Some 7) divide_forms = Return (r, s') \<and> as_Number s' r = Some 3) \<and>
   (\<forall>z. Eval 5 0 (Some 10) divide_forms \<noteq> Return z)"
proof -
  note o = subtract_forms_objects
  have name: "''-'' = ''-'' \<or> ''-'' = ''/''"
    by simp
  note inst = subtract_divide_arguments [of subtract_forms 0 "''-''", OF o(1) name]
  have a: "Eval 3 0 (Some 4) subtract_forms = Throw (RuntimeError ''Failed to evaluate: ( -)'')"
    using inst [where p = 4 and n = 0 and sc = 0, THEN conjunct1] o(5) by simp
  have lit: "Eval 3 0 (Some 1) subtract_forms = Return (Some 1, subtract_forms)"
    by (simp add: eval_nat_numeral o)
  have b: "Eval 4 0 (Some 6) subtract_forms = Return (Some 1, subtract_forms)"
    using inst [where p = 6 and ?p1.0 = 5 and e = "Some 1" and n = 0 and sc = 0 and v = "Some 1"
        and sa = subtract_forms, THEN conjunct2, THEN conjunct1]
      o(6,7) lit by simp
  have five: "(5::nat) = Suc (Suc (Suc (Suc (Suc 0))))"
    by simp
  have u: "UnfoldList 5 subtract_forms (Some 10) = Return [Some 0, Some 1, Some 2, Some 3]"
    by (subst five) (simp add: o)
  have ev: "EvalEach (Eval 5 0) [Some 1, Some 2, Some 3] subtract_forms =
      Return ([Some 1, Some 2, Some 3], subtract_forms)"
    by (subst five) (simp add: o)
  have n: "as_Number subtract_forms (Some 1) = Some 10"
    "map (as_Number subtract_forms) [Some 2, Some 3] = map Some [3, 2]"
    "list_all (allocated subtract_forms) [Some 2, Some 3]"
    by (simp_all add: as_Number_def allocated_def o)
  have "\<exists>r s'. Eval (Suc 5) 0 (Some 10) subtract_forms = Return (r, s') \<and>
      as_Number s' r = Some (foldl (-) 10 [3, 2])"
    using inst [where p = 10 and n = 5 and sc = 0 and rest = "Some 9"
        and es = "[Some 1, Some 2, Some 3]" and x = "Some 1" and xs = "[Some 2, Some 3]"
        and sb = subtract_forms and a = 10 and bs = "[3, 2]",
        THEN conjunct2, THEN conjunct2]
      o(11) u ev n by simp
  moreover have "Suc 5 = 6"
    by simp
  ultimately have c: "\<exists>r s'. Eval 6 0 (Some 10) subtract_forms = Return (r, s') \<and>
      as_Number s' r = Some 5"
    by (simp del: Eval.simps)
  note d = divide_forms_objects
  have name': "''/'' = ''-'' \<or> ''/'' = ''/''"
    by simp
  note inst' = subtract_divide_arguments [of divide_forms 0 "''/''", OF d(1) name']
  have four: "(4::nat) = Suc (Suc (Suc (Suc 0)))"
    by simp
  have u1: "UnfoldList 4 divide_forms (Some 7) = Return [Some 0, Some 1, Some 2]"
    by (subst four) (simp add: d)
  have ev1: "EvalEach (Eval 4 0) [Some 1, Some 2] divide_forms =
      Return ([Some 1, Some 2], divide_forms)"
    by (subst four) (simp add: d)
  have n1: "as_Number divide_forms (Some 1) = Some 7"
    "map (as_Number divide_forms) [Some 2] = map Some [2]"
    "list_all (allocated divide_forms) [Some 2]"
    by (simp_all add: as_Number_def allocated_def d)
  have "\<exists>r s'. Eval (Suc 4) 0 (Some 7) divide_forms = Return (r, s') \<and>
      as_Number s' r = Some 3"
    using inst' [where p = 7 and n = 4 and sc = 0 and rest = "Some 6"
        and es = "[Some 1, Some 2]" and x = "Some 1" and xs = "[Some 2]"
        and sb = divide_forms and a = 7 and bs = "[2]",
        THEN conjunct2, THEN conjunct2]
      d(8) u1 ev1 n1 quotients_examples(1) by simp
  moreover have "Suc 4 = 5"
    by simp
  ultimately have e: "\<exists>r s'. Eval 5 0 (Some 7) divide_forms = Return (r, s') \<and>
      as_Number s' r = Some 3"
    by (simp del: Eval.simps)
  have u2: "UnfoldList 4 divide_forms (Some 10) = Return [Some 0, Some 3, Some 4]"
    by (subst four) (simp add: d)
  have ev2: "EvalEach (Eval 4 0) [Some 3, Some 4] divide_forms =
      Return ([Some 3, Some 4], divide_forms)"
    by (subst four) (simp add: d)
  have n2: "as_Number divide_forms (Some 3) = Some (- (2 ^ 63))"
    "map (as_Number divide_forms) [Some 4] = map Some [- 1]"
    "list_all (allocated divide_forms) [Some 4]"
    by (simp_all add: as_Number_def allocated_def d)
  have "\<forall>z. Eval (Suc 4) 0 (Some 10) divide_forms \<noteq> Return z"
    using inst' [where p = 10 and n = 4 and sc = 0 and rest = "Some 9"
        and es = "[Some 3, Some 4]" and x = "Some 3" and xs = "[Some 4]"
        and sb = divide_forms and a = "- (2 ^ 63)" and bs = "[- 1]",
        THEN conjunct2, THEN conjunct2]
      d(11) u2 ev2 n2 quotients_examples(2) by simp
  moreover have "Suc 4 = 5"
    by simp
  ultimately have f: "\<forall>z. Eval 5 0 (Some 10) divide_forms \<noteq> Return z"
    by (simp del: Eval.simps)
  show ?thesis
    using a b c e f by blast
qed

section \<open>Ordering comparisons of operands that are not Numbers\<close>

lemma and_then_FailEvaluation [simp]:
  "and_then (FailEvaluation n s args) f = FailEvaluation n s args"
  by (simp add: FailEvaluation_def with_string_def split: option.splits)

lemma append_rendered_Some:
  "list_all (\<lambda>a. ts a \<noteq> None) args \<Longrightarrow> \<exists>msg. append_rendered ts args r = Some (r @ msg)"
proof (induction args arbitrary: r)
  case Nil
  then show ?case by simp
next
  case (Cons a args)
  then obtain str where str: "ts a = Some str"
    by auto
  from Cons obtain msg where "append_rendered ts args (r @ '' '' @ str) = Some ((r @ '' '' @ str) @ msg)"
    by fastforce
  then show ?case
    using str by simp
qed

lemma FailEvaluation_renders:
  assumes "list_all (\<lambda>a. ToString n s a \<noteq> None) args"
  shows "\<exists>msg. FailEvaluation n s args = Throw (RuntimeError (''Failed to evaluate: ('' @ msg @ '')''))"
proof -
  from append_rendered_Some [OF assms, of "''Failed to evaluate: (''"]
  obtain msg where "append_rendered (ToString n s) args ''Failed to evaluate: ('' =
      Some (''Failed to evaluate: ('' @ msg)"
    by blast
  then show ?thesis
    by (simp add: FailEvaluation_def)
qed

lemma FailEvaluation_RuntimeError:
  "FailEvaluation n s args = Some r \<Longrightarrow> \<exists>msg. r = Inl (RuntimeError msg)"
  by (auto simp: FailEvaluation_def with_string_def split: option.splits)

lemma commands_compare:
  "commands ''<'' = Some (compare_command Less)"
  "commands ''>'' = Some (compare_command Greater)"
  "commands ''<='' = Some (compare_command LessOrEqual)"
  "commands ''>='' = Some (compare_command GreaterOrEqual)"
  by (simp_all add: commands_def cmd_less_def cmd_greater_def cmd_less_equal_def
      cmd_greater_equal_def)

lemma EvalNumbers_first_non_Number:
  assumes "k < length es" and "length vs = k" and "length ss = Suc k"
    and "\<forall>i<k. ev (es ! i) (ss ! i) = Return (vs ! i, ss ! Suc i) \<and>
           as_Number (ss ! Suc i) (vs ! i) \<noteq> None"
    and "ev (es ! k) (ss ! k) = Return (v, s')" and "as_Number s' v = None"
  shows "EvalNumbers ev n done es (ss ! 0) =
           FailEvaluation n s' (done @ vs @ v # drop (Suc k) es)"
  using assms
proof (induction k arbitrary: es vs ss "done")
  case 0
  then obtain e es' where es: "es = e # es'"
    by (cases es) auto
  with 0 show ?case
    by simp
next
  case (Suc k)
  from Suc.prems(1) obtain e es' where es: "es = e # es'"
    by (cases es) auto
  from Suc.prems(2) obtain v0 vs' where vs: "vs = v0 # vs'"
    by (cases vs) auto
  from Suc.prems(3) obtain s0 ss' where ss: "ss = s0 # ss'"
    by (cases ss) auto
  from Suc.prems(4) [rule_format, of 0] have first: "ev e s0 = Return (v0, ss' ! 0)"
    and number: "as_Number (ss' ! 0) v0 \<noteq> None"
    by (simp_all add: es vs ss)
  have rest: "\<forall>i<k. ev (es' ! i) (ss' ! i) = Return (vs' ! i, ss' ! Suc i) \<and>
      as_Number (ss' ! Suc i) (vs' ! i) \<noteq> None"
  proof (intro allI impI)
    fix i
    assume "i < k"
    with Suc.prems(4) [rule_format, of "Suc i"] show
      "ev (es' ! i) (ss' ! i) = Return (vs' ! i, ss' ! Suc i) \<and>
       as_Number (ss' ! Suc i) (vs' ! i) \<noteq> None"
      by (simp add: es vs ss)
  qed
  have "EvalNumbers ev n (done @ [v0]) es' (ss' ! 0) =
      FailEvaluation n s' ((done @ [v0]) @ vs' @ v # drop (Suc k) es')"
  proof (rule Suc.IH [OF _ _ _ rest])
    show "k < length es'" "length vs' = k" "length ss' = Suc k"
      using Suc.prems(1,2,3) by (simp_all add: es vs ss)
    show "ev (es' ! k) (ss' ! k) = Return (v, s')"
      using Suc.prems(5) by (simp add: es ss)
    show "as_Number s' v = None"
      by (rule Suc.prems(6))
  qed
  then show ?case
    using first number by (auto simp: es vs ss)
qed

lemma compare_command_first_non_Number:
  assumes "k < length es" and "length vs = k" and "length ss = Suc k" and "ss ! 0 = s"
    and "\<forall>i<k. ev (es ! i) (ss ! i) = Return (vs ! i, ss ! Suc i) \<and>
           as_Number (ss ! Suc i) (vs ! i) \<noteq> None"
    and "ev (es ! k) (ss ! k) = Return (v, s')" and "as_Number s' v = None"
  shows "compare_command cmp ev n sc (c # es) s =
           FailEvaluation n s' (c # vs @ v # drop (Suc k) es)"
  using EvalNumbers_first_non_Number [OF assms(1,2,3,5,6,7), of n "[c]"] assms(4)
  by (simp add: compare_command_def)

text \<open>
  C6, as stated: an ordering comparison whose operands are not both Numbers fails with
  a NameError. \<open>(< 1 #t)\<close> and \<open>(< (quote ()) 1)\<close> fail with the RuntimeError of
  \<open>FailEvaluation\<close>.
\<close>

theorem ordering_counterexample:
  "Run 5 (L [S ''<'', N 1, B True]) = Throw (RuntimeError ''Failed to evaluate: ( < 1 #t)'') \<and>
   Run 5 (L [S ''<'', L [S ''quote'', L []], N 1]) =
     Throw (RuntimeError ''Failed to evaluate: ( < () 1)'')"
  by code_simp

text \<open>
  C6, amended: each of \<open><\<close>, \<open>>\<close>, \<open><=\<close> and \<open>>=\<close>, applied to any number of
  operands, evaluates them from left to right and checks each value right after its
  evaluation. At the first operand whose value is not a Number (the operand \<open>k\<close>, counted
  from 0, the \<open>k\<close> operands before it having evaluated to Numbers), the command calls
  \<open>FailEvaluation\<close> on its arguments as evaluated so far, which throws a RuntimeError
  \<open>Failed to evaluate: (...)\<close> once the arguments are rendered; no comparison is made.
  \<open>vs\<close> are the values of the first \<open>k\<close> operands and \<open>ss\<close> the stores before each of the
  evaluations.
\<close>

theorem ordering_of_non_numbers_fails:
  assumes "name \<in> {''<'', ''>'', ''<='', ''>=''}"
    and "objects s c = Symbol name"
    and "objects s p = Cell (Some c) rest"
    and "UnfoldList n s (Some p) = Return (Some c # es)"
    and "k < length es" and "length vs = k" and "length ss = Suc k" and "ss ! 0 = s"
    and "\<forall>i<k. Eval n sc (es ! i) (ss ! i) = Return (vs ! i, ss ! Suc i) \<and>
           as_Number (ss ! Suc i) (vs ! i) \<noteq> None"
    and "Eval n sc (es ! k) (ss ! k) = Return (v, s')"
    and "as_Number s' v = None"
    and "list_all (\<lambda>a. ToString n s' a \<noteq> None) (Some c # vs @ v # drop (Suc k) es)"
  shows "Eval (Suc n) sc (Some p) s =
           FailEvaluation n s' (Some c # vs @ v # drop (Suc k) es) \<and>
         (\<exists>msg. FailEvaluation n s' (Some c # vs @ v # drop (Suc k) es) =
            Throw (RuntimeError (''Failed to evaluate: ('' @ msg @ '')'')))"
proof -
  from assms(1) consider "name = ''<''" | "name = ''>''" | "name = ''<=''" | "name = ''>=''"
    by blast
  then obtain cmp where cmd: "commands name = Some (compare_command cmp)"
    by cases (simp_all add: commands_compare)
  have "Eval (Suc n) sc (Some p) s = compare_command cmp (Eval n sc) n sc (Some c # es) s"
    by (rule Eval_dispatch [OF assms(3,4,2) cmd])
  also have "\<dots> = FailEvaluation n s' (Some c # vs @ v # drop (Suc k) es)"
    by (rule compare_command_first_non_Number [OF assms(5,6,7,8,9,10,11)])
  finally show ?thesis
    using FailEvaluation_renders [OF assms(12)] by simp
qed

lemma compare_forms_objects:
  "objects compare_forms 0 = Symbol ''<''"
  "objects compare_forms (Suc 0) = Number 1"
  "objects compare_forms 2 = Number 2"
  "objects compare_forms 3 = Boolean True"
  "objects compare_forms 4 = Number 3"
  "objects compare_forms 5 = Cell (Some 4) None"
  "objects compare_forms 6 = Cell (Some 3) (Some 5)"
  "objects compare_forms 7 = Cell (Some 2) (Some 6)"
  "objects compare_forms 8 = Cell (Some 1) (Some 7)"
  "objects compare_forms 9 = Cell (Some 0) (Some 8)"
  by (simp_all add: compare_forms_def)

theorem ordering_of_non_numbers_fails_witness:
  "Eval 7 0 (Some 9) compare_forms =
     Throw (RuntimeError ''Failed to evaluate: ( < 1 2 #t 3)'')"
proof -
  note o = compare_forms_objects
  have six: "(6::nat) = Suc (Suc (Suc (Suc (Suc (Suc 0)))))"
    by simp
  have u: "UnfoldList 6 compare_forms (Some 9) =
      Return (Some 0 # [Some 1, Some 2, Some 3, Some 4])"
    by (subst six) (simp add: o)
  have e: "Eval 6 0 (Some 1) compare_forms = Return (Some 1, compare_forms)"
    "Eval 6 0 (Some 2) compare_forms = Return (Some 2, compare_forms)"
    "Eval 6 0 (Some 3) compare_forms = Return (Some 3, compare_forms)"
    by (subst six, simp add: o)+
  have r: "to_string 1 = ''1''" "to_string 2 = ''2''" "to_string 3 = ''3''"
    by (simp_all add: to_string_def dec.simps digit_char_def)
  have ts: "ToString 6 compare_forms (Some 0) = Some ''<''"
    "ToString 6 compare_forms (Some (Suc 0)) = Some ''1''"
    "ToString 6 compare_forms (Some 2) = Some ''2''"
    "ToString 6 compare_forms (Some 3) = Some ''#t''"
    "ToString 6 compare_forms (Some 4) = Some ''3''"
    by (subst six, simp add: o r)+
  have n: "as_Number compare_forms (Some 1) \<noteq> None" "as_Number compare_forms (Some 2) \<noteq> None"
    "as_Number compare_forms (Some 3) = None"
    by (simp_all add: as_Number_def o)
  have name: "''<'' \<in> {''<'', ''>'', ''<='', ''>=''}"
    by simp
  let ?es = "[Some 1, Some 2, Some 3, Some 4] :: ptr list"
  let ?vs = "[Some 1, Some 2] :: ptr list"
  let ?ss = "[compare_forms, compare_forms, compare_forms]"
  have k: "2 < length ?es" "length ?vs = 2" "length ?ss = Suc 2" "?ss ! 0 = compare_forms"
    by simp_all
  have before: "\<forall>i<2. Eval 6 0 (?es ! i) (?ss ! i) = Return (?vs ! i, ?ss ! Suc i) \<and>
      as_Number (?ss ! Suc i) (?vs ! i) \<noteq> None"
    using e n by (simp add: less_Suc_eq eval_nat_numeral del: Eval.simps)
  have at: "Eval 6 0 (?es ! 2) (?ss ! 2) = Return (Some 3, compare_forms)"
    using e by (simp del: Eval.simps)
  have render: "list_all (\<lambda>a. ToString 6 compare_forms a \<noteq> None)
      (Some 0 # ?vs @ Some 3 # drop (Suc 2) ?es)"
    using ts by (simp del: ToString.simps)
  have "Eval (Suc 6) 0 (Some 9) compare_forms =
      FailEvaluation 6 compare_forms (Some 0 # ?vs @ Some 3 # drop (Suc 2) ?es)"
    by (rule ordering_of_non_numbers_fails
        [OF name o(1) o(10) u k before at n(3) render, THEN conjunct1])
  moreover have "Suc 6 = 7"
    by simp
  ultimately show ?thesis
    by (simp add: FailEvaluation_def ts del: Eval.simps ToString.simps)
qed

section \<open>The frame that define writes\<close>












lemma objects_SetVariable [simp]: "objects (SetVariable sc name v s) = objects s"
  by (simp add: SetVariable_def assign_slot_def SetLocalVariable_def update_scope_def
      split: option.splits)

lemma next_object_SetVariable [simp]: "next_object (SetVariable sc name v s) = next_object s"
  by (simp add: SetVariable_def assign_slot_def SetLocalVariable_def update_scope_def
      split: option.splits)




section \<open>Equal on a value and itself\<close>

lemma Equal_cyclic:
  assumes a: "objects s a = Cell (Some b) (Some a)" and b: "objects s b = Number v"
  shows "Equal s (Some a) (Some a) = None"
proof -
  define P where "P = (\<lambda>(s'::state) (l::ptr) (r::ptr) (y::bool).
      (s' = s \<and> l = Some a \<and> r = Some a \<longrightarrow> False) \<and>
      (s' = s \<and> l = Some b \<and> r = Some b \<longrightarrow> y))"
  have "P s' l r y" if "Equal s' l r = Some y" for s' l r y
  proof (rule Equal.raw_induct [where P = P, OF _ that], goal_cases)
    case (1 Equal' s' l r y)
    note IH = 1(1) and body = 1(2)
    show ?case
      unfolding P_def
    proof (intro conjI impI)
      assume h: "s' = s \<and> l = Some a \<and> r = Some a"
      then have eqs: "s' = s" "l = Some a" "r = Some a"
        by simp_all
      from body [unfolded eqs] a have eq: "Option.bind (Equal' s (Some b) (Some b))
          (\<lambda>r. if r then Equal' s (Some a) (Some a) else Some False) = Some y"
        by simp
      then obtain t where t: "Equal' s (Some b) (Some b) = Some t"
        by (cases "Equal' s (Some b) (Some b)") auto
      from IH [OF t] have "t"
        by (auto simp: P_def)
      with eq t have "Equal' s (Some a) (Some a) = Some y"
        by simp
      from IH [OF this] show False
        by (auto simp: P_def)
    next
      assume h: "s' = s \<and> l = Some b \<and> r = Some b"
      with body b show y
        by simp
    qed
  qed
  then show ?thesis
    by (cases "Equal s (Some a) (Some a)") (auto simp: P_def)
qed

lemma pair_state_objects:
  "objects pair_state 0 = Cell (Some 1) None"
  "objects pair_state (Suc 0) = Number 1"
  "objects pair_state 2 = Symbol ''set-cdr!''"
  "objects pair_state 3 = Symbol ''x''"
  "objects pair_state 4 = Symbol ''x''"
  "objects pair_state 5 = Cell (Some 4) None"
  "objects pair_state 6 = Cell (Some 3) (Some 5)"
  "objects pair_state 7 = Cell (Some 2) (Some 6)"
  by (simp_all add: pair_state_def)

lemma set_cdr_builds_cycle:
  "Eval 5 0 (Some 7) pair_state = Return (None, SetSecond 0 (Some 0) pair_state)"
proof -
  note o = pair_state_objects
  have four: "(4::nat) = Suc (Suc (Suc (Suc 0)))"
    by simp
  have u: "UnfoldList 4 pair_state (Some 7) = Return [Some 2, Some 3, Some 4]"
    by (subst four) (simp add: o)
  have find: "FindVariable pair_state 0 ''x'' = Some 0"
    by (simp add: FindVariable.simps pair_state_def)
  have slot: "slot_value pair_state 0 ''x'' = Some 0"
    by (simp add: slot_value_def pair_state_def)
  have e: "Eval 4 0 (Some 4) pair_state = Return (Some 0, pair_state)"
    by (subst four) (simp add: o GetVariable_def find slot)
  have "cmd_set_cdr (Eval 4 0) 4 0 [Some 2, Some 3, Some 4] pair_state =
      Return (None, SetSecond 0 (Some 0) pair_state)"
    by (simp add: cmd_set_cdr_def as_Symbol_def o e find slot)
  with Eval_dispatch [OF o(8) u o(3) commands_mutators(4), of 0]
  have "Eval (Suc 4) 0 (Some 7) pair_state = Return (None, SetSecond 0 (Some 0) pair_state)"
    by simp
  moreover have "Suc 4 = 5"
    by simp
  ultimately show ?thesis
    by (simp del: Eval.simps)
qed

text \<open>
  C5, as stated: \<open>Equal(x, x)\<close> terminates and returns true also for a self-referential
  pair built via \<open>set-cdr!\<close>. Evaluating \<open>(set-cdr! x x)\<close> where \<open>x\<close> is the list \<open>(1)\<close>
  makes the cell at 0 its own cdr, and \<open>Equal\<close> of that cell and itself does not return:
  \<open>Cell::IsEqualTo\<close> compares the cars and then calls \<open>Equal\<close> on the same two pointers
  again.
\<close>

theorem Equal_cyclic_pair_counterexample:
  "Eval 5 0 (Some 7) pair_state = Return (None, SetSecond 0 (Some 0) pair_state) \<and>
   objects (SetSecond 0 (Some 0) pair_state) 0 = Cell (Some 1) (Some 0) \<and>
   Equal (SetSecond 0 (Some 0) pair_state) (Some 0) (Some 0) = None"
proof -
  have a: "objects (SetSecond 0 (Some 0) pair_state) 0 = Cell (Some 1) (Some 0)"
    by (simp add: SetSecond_def pair_state_def)
  have b: "objects (SetSecond 0 (Some 0) pair_state) 1 = Number 1"
    by (simp add: SetSecond_def pair_state_def)
  show ?thesis
    using set_cdr_builds_cycle a Equal_cyclic [OF a b] by simp
qed

text \<open>
  C5, amended: for every value \<open>x\<close> without a cycle (the empty list, an atom, a closure, or
  a pair structure that is finite), \<open>Equal(x, x)\<close> terminates and returns true.
\<close>

theorem Equal_of_finite_value:
  "finite_value s x \<Longrightarrow> Equal s x x = Some True"
proof (induction rule: finite_value.induct)
  case (finite_Cell s a f sec)
  then show ?case
    by (subst Equal.simps) simp
qed (subst Equal.simps, simp)+

theorem Equal_of_finite_value_witness:
  "Equal pair_state (Some 7) (Some 7) = Some True"
proof -
  note o = pair_state_objects
  have "finite_value pair_state (Some 4)"
    by (rule finite_Symbol [OF o(5)])
  then have "finite_value pair_state (Some 5)"
    by (rule finite_Cell [OF o(6) _ finite_nullptr])
  then have "finite_value pair_state (Some 6)"
    by (rule finite_Cell [OF o(7) finite_Symbol [OF o(4)]])
  then have "finite_value pair_state (Some 7)"
    by (rule finite_Cell [OF o(8) finite_Symbol [OF o(3)]])
  then show ?thesis
    by (rule Equal_of_finite_value)
qed

end
